theory Spec2Isabelle
  imports Complex_Main "HOL-Library.Word" "HOL-Library.AList"
begin

section \<open>Scalar types and faults\<close>

text \<open>
  The renderer of \<^verbatim>\<open>native/src/foam_gl_renderer.cpp\<close> stores and forwards
  single-precision numbers; a \<^verbatim>\<open>float\<close> is modelled by the real number it
  denotes and a literal such as \<^verbatim>\<open>0.7f\<close> by the decimal it is written as.
  \<^verbatim>\<open>uint32_t\<close> and \<^verbatim>\<open>GLuint\<close> are 32-bit words. \<^verbatim>\<open>int32_t\<close> is an
  \<^typ>\<open>int\<close>; signed overflow is undefined in C++, so the one place the source
  multiplies counts checks the range and reports a fault.
\<close>

type_synonym float = real
type_synonym uint32_t = "32 word"
type_synonym GLuint = "32 word"
type_synonym int32_t = int

datatype fault =
    SignedOverflow
  | InvalidRange
  | NullPointerRead
  | OutOfBoundsRead
  | DanglingHandle

definition bind_f :: "fault + 'a \<Rightarrow> ('a \<Rightarrow> fault + 'b) \<Rightarrow> fault + 'b" where
  "bind_f m k = (case m of Inl e \<Rightarrow> Inl e | Inr x \<Rightarrow> k x)"

definition INT32_MIN :: int where
  "INT32_MIN = - 2147483648"

definition INT32_MAX :: int where
  "INT32_MAX = 2147483647"

definition mul_i32 :: "int32_t \<Rightarrow> int32_t \<Rightarrow> fault + int32_t" where
  "mul_i32 a b =
     (if INT32_MIN \<le> a * b \<and> a * b \<le> INT32_MAX then Inr (a * b) else Inl SignedOverflow)"

text \<open>
  \<^verbatim>\<open>v.assign(p, p + n)\<close>: the iterator range must be valid, so \<open>n\<close> is not
  negative and the \<open>n\<close> elements lie inside the array \<open>p\<close> points to. A null
  pointer (\<open>None\<close>) has the empty range only.
\<close>

definition read_array :: "'a list option \<Rightarrow> int \<Rightarrow> fault + 'a list" where
  "read_array p n =
     (if n < 0 then Inl InvalidRange
      else case p of
             None \<Rightarrow> (if n = 0 then Inr [] else Inl NullPointerRead)
           | Some xs \<Rightarrow>
               (if nat n \<le> length xs then Inr (take (nat n) xs) else Inl OutOfBoundsRead))"

text \<open>\<^verbatim>\<open>std::vector<float>::resize(k)\<close>: keeps the first \<open>k\<close> elements and pads with \<open>0.0f\<close>.\<close>

definition vec_resize :: "nat \<Rightarrow> float list \<Rightarrow> float list" where
  "vec_resize k xs = take k xs @ replicate (k - length xs) 0"

section \<open>Vectors and matrices of glm\<close>

datatype vec3 = Vec3 (vx: float) (vy: float) (vz: float)

datatype vec4 = Vec4 (v4x: float) (v4y: float) (v4z: float) (v4w: float)

text \<open>A \<^verbatim>\<open>glm::mat4\<close> is column-major: four columns, each a \<^verbatim>\<open>vec4\<close>.\<close>

datatype mat4 = Mat4 (col0: vec4) (col1: vec4) (col2: vec4) (col3: vec4)

definition vec3_neg :: "vec3 \<Rightarrow> vec3" where
  "vec3_neg v = Vec3 (- vx v) (- vy v) (- vz v)"

definition vec3_scale :: "float \<Rightarrow> vec3 \<Rightarrow> vec3" where
  "vec3_scale s v = Vec3 (s * vx v) (s * vy v) (s * vz v)"

definition vec4_add :: "vec4 \<Rightarrow> vec4 \<Rightarrow> vec4" where
  "vec4_add a b = Vec4 (v4x a + v4x b) (v4y a + v4y b) (v4z a + v4z b) (v4w a + v4w b)"

definition vec4_scale :: "vec4 \<Rightarrow> float \<Rightarrow> vec4" where
  "vec4_scale a s = Vec4 (v4x a * s) (v4y a * s) (v4z a * s) (v4w a * s)"

definition mat4_identity :: mat4 where
  "mat4_identity = Mat4 (Vec4 1 0 0 0) (Vec4 0 1 0 0) (Vec4 0 0 1 0) (Vec4 0 0 0 1)"

text \<open>The product of a matrix with a column vector, \<^verbatim>\<open>m * v\<close> of the shaders.\<close>

definition mat4_apply :: "mat4 \<Rightarrow> vec4 \<Rightarrow> vec4" where
  "mat4_apply m v =
     vec4_add (vec4_add (vec4_scale (col0 m) (v4x v)) (vec4_scale (col1 m) (v4y v)))
              (vec4_add (vec4_scale (col2 m) (v4z v)) (vec4_scale (col3 m) (v4w v)))"

text \<open>
  glm is a library the renderer calls, not part of its source. The functions
  below follow glm's reference implementation (\<^verbatim>\<open>glm/ext/matrix_transform.inl\<close>,
  \<^verbatim>\<open>glm/ext/matrix_clip_space.inl\<close>, right-handed, depth range \<open>-1\<close> to \<open>1\<close>) in
  real arithmetic. \<open>glm_normalize\<close> is meant for a non-zero vector; the renderer
  passes the unit axes only.
\<close>

definition glm_radians :: "float \<Rightarrow> float" where
  "glm_radians degrees = degrees * (pi / 180)"

definition glm_normalize :: "vec3 \<Rightarrow> vec3" where
  "glm_normalize v = vec3_scale (1 / sqrt (vx v * vx v + vy v * vy v + vz v * vz v)) v"

definition glm_translate :: "mat4 \<Rightarrow> vec3 \<Rightarrow> mat4" where
  "glm_translate m v =
     Mat4 (col0 m) (col1 m) (col2 m)
       (vec4_add (vec4_add (vec4_scale (col0 m) (vx v)) (vec4_scale (col1 m) (vy v)))
                 (vec4_add (vec4_scale (col2 m) (vz v)) (col3 m)))"

definition glm_rotate :: "mat4 \<Rightarrow> float \<Rightarrow> vec3 \<Rightarrow> mat4" where
  "glm_rotate m angle v =
     (let c = cos angle; s = sin angle;
          axis = glm_normalize v;
          temp = vec3_scale (1 - c) axis;
          r00 = c + vx temp * vx axis;
          r01 = vx temp * vy axis + s * vz axis;
          r02 = vx temp * vz axis - s * vy axis;
          r10 = vy temp * vx axis - s * vz axis;
          r11 = c + vy temp * vy axis;
          r12 = vy temp * vz axis + s * vx axis;
          r20 = vz temp * vx axis + s * vy axis;
          r21 = vz temp * vy axis - s * vx axis;
          r22 = c + vz temp * vz axis
      in Mat4
           (vec4_add (vec4_add (vec4_scale (col0 m) r00) (vec4_scale (col1 m) r01))
                     (vec4_scale (col2 m) r02))
           (vec4_add (vec4_add (vec4_scale (col0 m) r10) (vec4_scale (col1 m) r11))
                     (vec4_scale (col2 m) r12))
           (vec4_add (vec4_add (vec4_scale (col0 m) r20) (vec4_scale (col1 m) r21))
                     (vec4_scale (col2 m) r22))
           (col3 m))"

text \<open>
  A quotient with divisor zero is no real number (the machine gives an infinity or a
  NaN): \<open>float_div\<close> and \<open>glm_perspective\<close> return \<open>None\<close> there, and a matrix
  that is \<open>None\<close> stands for one with such an entry.
\<close>

definition float_div :: "float \<Rightarrow> float \<Rightarrow> float option" where
  "float_div a b = (if b = 0 then None else Some (a / b))"

definition glm_perspective :: "float \<Rightarrow> float \<Rightarrow> float \<Rightarrow> float \<Rightarrow> mat4 option" where
  "glm_perspective fovy aspect zNear zFar =
     (let tanHalfFovy = tan (fovy / 2)
      in if aspect * tanHalfFovy = 0 \<or> tanHalfFovy = 0 \<or> zFar - zNear = 0 then None
         else Some (Mat4 (Vec4 (1 / (aspect * tanHalfFovy)) 0 0 0)
                         (Vec4 0 (1 / tanHalfFovy) 0 0)
                         (Vec4 0 0 (- (zFar + zNear) / (zFar - zNear)) (- 1))
                         (Vec4 0 0 (- (2 * zFar * zNear) / (zFar - zNear)) 0)))"

section \<open>The OpenGL and GLFW boundary\<close>

text \<open>
  The renderer talks to the driver through calls. The model records every call in
  the order it is issued and keeps the table of names in use, since
  \<^verbatim>\<open>glGen*\<close> returns names that are not in use and \<^verbatim>\<open>glDelete*\<close> frees them
  again. What the driver answers (which name it hands out, given the calls so far
  and the names in use; whether a shader compiles; where a uniform lives) is a
  parameter, the \<open>platform\<close>.
\<close>

datatype gl_namespace =
    NS_VertexArray
  | NS_Buffer
  | NS_Framebuffer
  | NS_Texture
  | NS_Renderbuffer
  | NS_ShaderProgram

datatype buffer_target = ARRAY_BUFFER | ELEMENT_ARRAY_BUFFER

datatype buffer_data = FloatData "float list" | UIntData "uint32_t list"

datatype gl_cap = DEPTH_TEST | BLEND

datatype polygon_mode = LINE | FILL

datatype shader_stage = VERTEX_SHADER | FRAGMENT_SHADER

text \<open>The four shader texts are fixed assets, named as the source names them.\<close>

datatype shader_source =
    vertex_shader_source
  | fragment_shader_source
  | edge_vertex_shader
  | edge_fragment_shader

datatype gl_call =
    Gen gl_namespace GLuint
  | Delete gl_namespace GLuint
  | CreateShader shader_stage GLuint
  | ShaderSource GLuint shader_source
  | CompileShader GLuint
  | CreateProgram GLuint
  | AttachShader GLuint GLuint
  | LinkProgram GLuint
  | BindFramebuffer GLuint
  | BindTexture GLuint
  | BindRenderbuffer GLuint
  | BindVertexArray GLuint
  | BindBuffer buffer_target GLuint
  | BufferData buffer_target nat buffer_data
  | VertexAttribPointer nat nat nat
  | EnableVertexAttribArray nat
  | TexImage2D int int
  | TexParameteriLinear string
  | FramebufferTexture2D GLuint
  | RenderbufferStorage int int
  | FramebufferRenderbuffer GLuint
  | Enable gl_cap
  | DepthFuncLess
  | BlendFuncSrcAlpha
  | Viewport int int int int
  | ClearColor float float float float
  | ClearColorDepth
  | UseProgram GLuint
  | GetUniformLocation GLuint string
  | UniformMatrix4fv int "mat4 option"
  | Uniform4f int float float float float
  | DrawElementsTriangles int
  | PolygonMode polygon_mode
  | GlfwCreateWindow int int
  | GlfwMakeContextCurrent nat
  | GlfwDestroyWindow nat
  | GlfwTerminate

record platform =
  new_addr :: "nat list \<Rightarrow> nat"
  glfw_init_ok :: bool
  glfw_window :: "nat list \<Rightarrow> nat"
  glew_init_ok :: bool
  gen_name :: "gl_namespace \<Rightarrow> gl_call list \<Rightarrow> GLuint list \<Rightarrow> GLuint"
  compile_ok :: "GLuint \<Rightarrow> bool"
  link_ok :: "GLuint \<Rightarrow> bool"
  info_log :: "GLuint \<Rightarrow> string"
  framebuffer_complete :: "GLuint \<Rightarrow> bool"
  uniform_location :: "GLuint \<Rightarrow> string \<Rightarrow> int"

text \<open>
  Every window of GLFW carries its own context, and names belong to a context: the
  table of names is kept per window, and the calls act on the context that is
  current. Window \<open>0\<close> is the null pointer; with no context current the calls are
  still recorded (against window \<open>0\<close>), and what a driver does then is outside the
  model.
\<close>

record gl_state =
  windows :: "nat list"
  current :: nat
  names :: "nat \<Rightarrow> gl_namespace \<Rightarrow> GLuint list"
  calls :: "gl_call list"
  cerr :: "string list"

definition names_in_use :: "gl_state \<Rightarrow> gl_namespace \<Rightarrow> GLuint list" where
  "names_in_use g ns = names g (current g) ns"

definition set_names :: "gl_namespace \<Rightarrow> GLuint list \<Rightarrow> gl_state \<Rightarrow> gl_state" where
  "set_names ns xs g = g\<lparr>names := (names g)(current g := (names g (current g))(ns := xs))\<rparr>"

definition glcall :: "gl_call \<Rightarrow> gl_state \<Rightarrow> gl_state" where
  "glcall c g = g\<lparr>calls := calls g @ [c]\<rparr>"

definition gl_gen :: "platform \<Rightarrow> gl_namespace \<Rightarrow> gl_state \<Rightarrow> GLuint \<times> gl_state" where
  "gl_gen p ns g =
     (let n = gen_name p ns (calls g) (names_in_use g ns)
      in (n, glcall (Gen ns n) (set_names ns (n # names_in_use g ns) g)))"

definition gl_delete :: "gl_namespace \<Rightarrow> GLuint \<Rightarrow> gl_state \<Rightarrow> gl_state" where
  "gl_delete ns n g =
     glcall (Delete ns n) (set_names ns (removeAll n (names_in_use g ns)) g)"

definition gls :: "gl_call list \<Rightarrow> gl_state \<Rightarrow> gl_state" where
  "gls cs g = g\<lparr>calls := calls g @ cs\<rparr>"

definition log_cerr :: "string \<Rightarrow> gl_state \<Rightarrow> gl_state" where
  "log_cerr s g = g\<lparr>cerr := cerr g @ [s]\<rparr>"

text \<open>\<^verbatim>\<open>glCreateShader\<close> and \<^verbatim>\<open>glCreateProgram\<close> hand out a name of the shared
  shader and program name space.\<close>

definition gl_create_shader :: "platform \<Rightarrow> shader_stage \<Rightarrow> gl_state \<Rightarrow> GLuint \<times> gl_state" where
  "gl_create_shader p st g =
     (let n = gen_name p NS_ShaderProgram (calls g) (names_in_use g NS_ShaderProgram)
      in (n, glcall (CreateShader st n)
               (set_names NS_ShaderProgram (n # names_in_use g NS_ShaderProgram) g)))"

definition gl_create_program :: "platform \<Rightarrow> gl_state \<Rightarrow> GLuint \<times> gl_state" where
  "gl_create_program p g =
     (let n = gen_name p NS_ShaderProgram (calls g) (names_in_use g NS_ShaderProgram)
      in (n, glcall (CreateProgram n)
               (set_names NS_ShaderProgram (n # names_in_use g NS_ShaderProgram) g)))"

text \<open>
  GLFW: a new window brings a context with no names in use; destroying a window
  destroys its context; \<^verbatim>\<open>glfwTerminate\<close> destroys every window.
\<close>

definition glfw_create_window :: "platform \<Rightarrow> int \<Rightarrow> int \<Rightarrow> gl_state \<Rightarrow> nat \<times> gl_state" where
  "glfw_create_window p w h g =
     (let win = glfw_window p (windows g);
          g = glcall (GlfwCreateWindow w h) g
      in if win = 0 then (win, g)
         else (win, g\<lparr>windows := win # windows g, names := (names g)(win := (\<lambda>ns. []))\<rparr>))"

definition glfw_make_context_current :: "nat \<Rightarrow> gl_state \<Rightarrow> gl_state" where
  "glfw_make_context_current win g = glcall (GlfwMakeContextCurrent win) (g\<lparr>current := win\<rparr>)"

definition glfw_destroy_window :: "nat \<Rightarrow> gl_state \<Rightarrow> gl_state" where
  "glfw_destroy_window win g =
     glcall (GlfwDestroyWindow win)
       (g\<lparr>windows := removeAll win (windows g),
          current := (if current g = win then 0 else current g),
          names := (names g)(win := (\<lambda>ns. []))\<rparr>)"

definition glfw_terminate :: "gl_state \<Rightarrow> gl_state" where
  "glfw_terminate g =
     glcall GlfwTerminate (g\<lparr>windows := [], current := 0, names := (\<lambda>win ns. [])\<rparr>)"

section \<open>The renderer object\<close>

text \<open>
  The enumerations of the header cross a C boundary as integers, so a value outside
  the enumerators can arrive; they are integers here, with the enumerators as constants.
\<close>

type_synonym MeshRepresentation = int
type_synonym DataMode = int

definition REPRESENTATION_WIREFRAME :: MeshRepresentation where
  "REPRESENTATION_WIREFRAME = 0"

definition REPRESENTATION_SURFACE :: MeshRepresentation where
  "REPRESENTATION_SURFACE = 1"

definition REPRESENTATION_SURFACE_WITH_EDGES :: MeshRepresentation where
  "REPRESENTATION_SURFACE_WITH_EDGES = 2"

definition DATA_MODE_CELL :: DataMode where
  "DATA_MODE_CELL = 0"

definition DATA_MODE_POINT :: DataMode where
  "DATA_MODE_POINT = 1"

record FoamRenderer =
  window :: nat
  width :: int
  height :: int
  surface_shader :: GLuint
  edge_shader :: GLuint
  surface_vao :: GLuint
  surface_vbo :: GLuint
  surface_ebo :: GLuint
  surface_color_vbo :: GLuint
  edge_vao :: GLuint
  edge_vbo :: GLuint
  edge_ebo :: GLuint
  fbo :: GLuint
  texture :: GLuint
  rbo :: GLuint
  vertices :: "float list"
  indices :: "uint32_t list"
  vertex_colors :: "float list"
  cell_colors :: "float list"
  vertex_count :: int32_t
  index_count :: int32_t
  cell_count :: int32_t
  rotation_x :: float
  rotation_y :: float
  zoom :: float
  mesh_center :: vec3
  representation :: MeshRepresentation
  data_mode :: DataMode

text \<open>
  The members with a default member initialiser, and the vectors, start as the class
  says; the others (\<open>window\<close>, the shader and buffer names, \<open>fbo\<close>, \<open>texture\<close>,
  \<open>rbo\<close>) have no initialiser and keep what the raw storage \<open>raw\<close> holds until the
  constructor assigns them.
\<close>

definition member_init :: "FoamRenderer \<Rightarrow> int32_t \<Rightarrow> int32_t \<Rightarrow> FoamRenderer" where
  "member_init raw w h =
     raw\<lparr>width := w, height := h,
         vertices := [], indices := [], vertex_colors := [], cell_colors := [],
         vertex_count := 0, index_count := 0, cell_count := 0,
         rotation_x := 0.3, rotation_y := 0.3, zoom := 500,
         mesh_center := Vec3 0 0 0,
         representation := REPRESENTATION_SURFACE, data_mode := DATA_MODE_POINT\<rparr>"

definition check_shader_compile :: "platform \<Rightarrow> GLuint \<Rightarrow> string \<Rightarrow> gl_state \<Rightarrow> gl_state" where
  "check_shader_compile p shader type g =
     (if \<not> compile_ok p shader
      then log_cerr (''Shader compilation error ('' @ type @ ''): '' @ info_log p shader) g
      else g)"

definition check_program_link :: "platform \<Rightarrow> GLuint \<Rightarrow> gl_state \<Rightarrow> gl_state" where
  "check_program_link p program g =
     (if \<not> link_ok p program
      then log_cerr (''Program linking error: '' @ info_log p program) g
      else g)"

definition create_shader_program ::
  "platform \<Rightarrow> shader_source \<Rightarrow> shader_source \<Rightarrow> gl_state \<Rightarrow> GLuint \<times> gl_state" where
  "create_shader_program p vs_source fs_source g =
     (let (vertex_shader, g) = gl_create_shader p VERTEX_SHADER g;
          g = gls [ShaderSource vertex_shader vs_source, CompileShader vertex_shader] g;
          g = check_shader_compile p vertex_shader ''VERTEX'' g;
          (fragment_shader, g) = gl_create_shader p FRAGMENT_SHADER g;
          g = gls [ShaderSource fragment_shader fs_source, CompileShader fragment_shader] g;
          g = check_shader_compile p fragment_shader ''FRAGMENT'' g;
          (program, g) = gl_create_program p g;
          g = gls [AttachShader program vertex_shader, AttachShader program fragment_shader,
                   LinkProgram program] g;
          g = check_program_link p program g;
          g = gl_delete NS_ShaderProgram vertex_shader g;
          g = gl_delete NS_ShaderProgram fragment_shader g
      in (program, g))"

definition create_framebuffer ::
  "platform \<Rightarrow> int \<Rightarrow> int \<Rightarrow> FoamRenderer \<Rightarrow> gl_state \<Rightarrow> FoamRenderer \<times> gl_state" where
  "create_framebuffer p w h r g =
     (let g = (if fbo r \<noteq> 0
               then gl_delete NS_Renderbuffer (rbo r)
                      (gl_delete NS_Texture (texture r) (gl_delete NS_Framebuffer (fbo r) g))
               else g);
          (f, g) = gl_gen p NS_Framebuffer g;
          r = r\<lparr>fbo := f\<rparr>;
          g = glcall (BindFramebuffer (fbo r)) g;
          (t, g) = gl_gen p NS_Texture g;
          r = r\<lparr>texture := t\<rparr>;
          g = gls [BindTexture (texture r), TexImage2D w h,
                   TexParameteriLinear ''GL_TEXTURE_MIN_FILTER'',
                   TexParameteriLinear ''GL_TEXTURE_MAG_FILTER'',
                   FramebufferTexture2D (texture r)] g;
          (b, g) = gl_gen p NS_Renderbuffer g;
          r = r\<lparr>rbo := b\<rparr>;
          g = gls [BindRenderbuffer (rbo r), RenderbufferStorage w h,
                   FramebufferRenderbuffer (rbo r)] g;
          g = (if \<not> framebuffer_complete p (fbo r)
               then log_cerr ''Framebuffer is not complete!'' g else g);
          g = glcall (BindFramebuffer 0) g
      in (r, g))"

text \<open>
  The constructor. \<^verbatim>\<open>glfwInit\<close> and the window hints (OpenGL 3.3 core, hidden window)
  issue nothing to the driver and are not recorded; whether they and \<^verbatim>\<open>glewInit\<close>
  succeed is the platform's answer. Each early return leaves the members assigned
  so far.
\<close>

definition FoamRenderer_ctor ::
  "platform \<Rightarrow> FoamRenderer \<Rightarrow> int32_t \<Rightarrow> int32_t \<Rightarrow> gl_state \<Rightarrow> FoamRenderer \<times> gl_state" where
  "FoamRenderer_ctor p raw w h g =
     (let r = member_init raw w h
      in if \<not> glfw_init_ok p then (r, log_cerr ''Failed to initialize GLFW'' g)
         else
           let (win, g) = glfw_create_window p (width r) (height r) g;
               r = r\<lparr>window := win\<rparr>
           in if window r = 0
              then (r, glfw_terminate (log_cerr ''Failed to create GLFW window'' g))
              else
                let g = glfw_make_context_current (window r) g
                in if \<not> glew_init_ok p then (r, log_cerr ''Failed to initialize GLEW'' g)
                   else
                     let (ss, g) = create_shader_program p vertex_shader_source fragment_shader_source g;
                         r = r\<lparr>surface_shader := ss\<rparr>;
                         (es, g) = create_shader_program p edge_vertex_shader edge_fragment_shader g;
                         r = r\<lparr>edge_shader := es\<rparr>;
                         (n, g) = gl_gen p NS_VertexArray g; r = r\<lparr>surface_vao := n\<rparr>;
                         (n, g) = gl_gen p NS_Buffer g; r = r\<lparr>surface_vbo := n\<rparr>;
                         (n, g) = gl_gen p NS_Buffer g; r = r\<lparr>surface_ebo := n\<rparr>;
                         (n, g) = gl_gen p NS_Buffer g; r = r\<lparr>surface_color_vbo := n\<rparr>;
                         (n, g) = gl_gen p NS_VertexArray g; r = r\<lparr>edge_vao := n\<rparr>;
                         (n, g) = gl_gen p NS_Buffer g; r = r\<lparr>edge_vbo := n\<rparr>;
                         (n, g) = gl_gen p NS_Buffer g; r = r\<lparr>edge_ebo := n\<rparr>;
                         (r, g) = create_framebuffer p (width r) (height r) r g;
                         g = gls [Enable DEPTH_TEST, DepthFuncLess, Enable BLEND, BlendFuncSrcAlpha] g
                     in (r, g))"

definition FoamRenderer_dtor :: "FoamRenderer \<Rightarrow> gl_state \<Rightarrow> gl_state" where
  "FoamRenderer_dtor r g =
     (let g = gl_delete NS_VertexArray (surface_vao r) g;
          g = gl_delete NS_Buffer (surface_vbo r) g;
          g = gl_delete NS_Buffer (surface_ebo r) g;
          g = gl_delete NS_Buffer (surface_color_vbo r) g;
          g = gl_delete NS_VertexArray (edge_vao r) g;
          g = gl_delete NS_Buffer (edge_vbo r) g;
          g = gl_delete NS_Buffer (edge_ebo r) g;
          g = gl_delete NS_Framebuffer (fbo r) g;
          g = gl_delete NS_Texture (texture r) g;
          g = gl_delete NS_Renderbuffer (rbo r) g;
          g = gl_delete NS_ShaderProgram (surface_shader r) g;
          g = gl_delete NS_ShaderProgram (edge_shader r) g;
          g = (if window r \<noteq> 0 then glfw_destroy_window (window r) g else g)
      in glfw_terminate g)"

section \<open>Mesh upload\<close>

definition upload_mesh_to_gpu :: "FoamRenderer \<Rightarrow> gl_state \<Rightarrow> gl_state" where
  "upload_mesh_to_gpu r g =
     gls [BindVertexArray (surface_vao r),
          BindBuffer ARRAY_BUFFER (surface_vbo r),
          BufferData ARRAY_BUFFER (length (vertices r) * 4) (FloatData (vertices r)),
          VertexAttribPointer 0 3 (3 * 4),
          EnableVertexAttribArray 0,
          BindBuffer ARRAY_BUFFER (surface_color_vbo r),
          BufferData ARRAY_BUFFER (length (vertex_colors r) * 4) (FloatData (vertex_colors r)),
          VertexAttribPointer 1 4 (4 * 4),
          EnableVertexAttribArray 1,
          BindBuffer ELEMENT_ARRAY_BUFFER (surface_ebo r),
          BufferData ELEMENT_ARRAY_BUFFER (length (indices r) * 4) (UIntData (indices r)),
          BindVertexArray 0,
          BindVertexArray (edge_vao r),
          BindBuffer ARRAY_BUFFER (edge_vbo r),
          BufferData ARRAY_BUFFER (length (vertices r) * 4) (FloatData (vertices r)),
          VertexAttribPointer 0 3 (3 * 4),
          EnableVertexAttribArray 0,
          BindBuffer ELEMENT_ARRAY_BUFFER (edge_ebo r),
          BufferData ELEMENT_ARRAY_BUFFER (length (indices r) * 4) (UIntData (indices r)),
          BindVertexArray 0] g"

text \<open>
  One round of the loop that writes the default colour of vertex \<open>i\<close>, and the loop
  \<^verbatim>\<open>for (int i = 0; i < vert_count; i++)\<close> over it.
\<close>

definition default_color_step :: "float list \<Rightarrow> nat \<Rightarrow> float list" where
  "default_color_step cs i =
     cs[i * 4 + 0 := 0.5, i * 4 + 1 := 0.7, i * 4 + 2 := 1.0, i * 4 + 3 := 1.0]"

definition default_color_loop :: "nat \<Rightarrow> float list \<Rightarrow> float list" where
  "default_color_loop vert_count cs = foldl default_color_step cs [0..<vert_count]"

definition update_mesh_data ::
  "FoamRenderer \<Rightarrow> gl_state \<Rightarrow> float list option \<Rightarrow> int32_t \<Rightarrow> uint32_t list option \<Rightarrow> int32_t \<Rightarrow>
     float list option \<Rightarrow> float list option \<Rightarrow> int32_t \<Rightarrow> fault + (FoamRenderer \<times> gl_state)" where
  "update_mesh_data r g verts vert_count inds ind_count colors c_colors c_count =
     (let r = r\<lparr>vertex_count := vert_count, index_count := ind_count, cell_count := c_count\<rparr>
      in bind_f (mul_i32 vert_count 3) (\<lambda>n3.
         bind_f (read_array verts n3) (\<lambda>vs.
         bind_f (read_array inds ind_count) (\<lambda>is.
         let r = r\<lparr>vertices := vs, indices := is\<rparr>
         in bind_f (mul_i32 vert_count 4) (\<lambda>n4.
            bind_f (case colors of
                      Some cs \<Rightarrow> read_array (Some cs) n4
                    | None \<Rightarrow>
                        Inr (default_color_loop (nat vert_count)
                               (vec_resize (nat n4) (vertex_colors r)))) (\<lambda>vcs.
            let r = r\<lparr>vertex_colors := vcs\<rparr>
            in bind_f (case c_colors of
                         Some ccs \<Rightarrow>
                           bind_f (mul_i32 c_count 4) (\<lambda>k4.
                           bind_f (read_array (Some ccs) k4) (\<lambda>cc.
                           Inr (r\<lparr>cell_colors := cc\<rparr>)))
                       | None \<Rightarrow> Inr r) (\<lambda>r.
               Inr (r, upload_mesh_to_gpu r g))))))))"

section \<open>Per-frame render and resize\<close>

text \<open>The three blocks of \<^verbatim>\<open>render\<close> the source marks by comments: the matrices, the
  surface pass and the edge pass.\<close>

definition setup_matrices :: "FoamRenderer \<Rightarrow> mat4 \<times> mat4 \<times> mat4 option" where
  "setup_matrices r =
     (let model = mat4_identity;
          model = glm_translate model (vec3_neg (mesh_center r));
          model = glm_rotate model (rotation_y r) (Vec3 0 1 0);
          model = glm_rotate model (rotation_x r) (Vec3 1 0 0);
          view = mat4_identity;
          view = glm_translate view (Vec3 0 0 (- zoom r));
          aspect = float_div (real_of_int (width r)) (real_of_int (height r));
          projection = Option.bind aspect (\<lambda>a. glm_perspective (glm_radians 45) a 0.1 10000)
      in (model, view, projection))"

definition render_surface ::
  "platform \<Rightarrow> FoamRenderer \<Rightarrow> mat4 \<Rightarrow> mat4 \<Rightarrow> mat4 option \<Rightarrow> gl_state \<Rightarrow> gl_state" where
  "render_surface p r model view projection g =
     (let model_loc = uniform_location p (surface_shader r) ''model'';
          view_loc = uniform_location p (surface_shader r) ''view'';
          proj_loc = uniform_location p (surface_shader r) ''projection''
      in gls [UseProgram (surface_shader r),
              GetUniformLocation (surface_shader r) ''model'',
              GetUniformLocation (surface_shader r) ''view'',
              GetUniformLocation (surface_shader r) ''projection'',
              UniformMatrix4fv model_loc (Some model),
              UniformMatrix4fv view_loc (Some view),
              UniformMatrix4fv proj_loc projection,
              BindVertexArray (surface_vao r),
              DrawElementsTriangles (index_count r)] g)"

definition render_edges ::
  "platform \<Rightarrow> FoamRenderer \<Rightarrow> mat4 \<Rightarrow> mat4 \<Rightarrow> mat4 option \<Rightarrow> gl_state \<Rightarrow> gl_state" where
  "render_edges p r model view projection g =
     (let model_loc = uniform_location p (edge_shader r) ''model'';
          view_loc = uniform_location p (edge_shader r) ''view'';
          proj_loc = uniform_location p (edge_shader r) ''projection'';
          color_loc = uniform_location p (edge_shader r) ''edgeColor''
      in gls [UseProgram (edge_shader r),
              GetUniformLocation (edge_shader r) ''model'',
              GetUniformLocation (edge_shader r) ''view'',
              GetUniformLocation (edge_shader r) ''projection'',
              GetUniformLocation (edge_shader r) ''edgeColor'',
              UniformMatrix4fv model_loc (Some model),
              UniformMatrix4fv view_loc (Some view),
              UniformMatrix4fv proj_loc projection,
              (if representation r = REPRESENTATION_WIREFRAME
               then Uniform4f color_loc 0.25 0.5 1.0 1.0
               else Uniform4f color_loc 0.0 0.0 0.0 0.3),
              BindVertexArray (edge_vao r),
              PolygonMode LINE,
              DrawElementsTriangles (index_count r),
              PolygonMode FILL] g)"

definition render :: "platform \<Rightarrow> FoamRenderer \<Rightarrow> gl_state \<Rightarrow> uint32_t \<times> FoamRenderer \<times> gl_state" where
  "render p r g =
     (let g = glfw_make_context_current (window r) g;
          g = gls [BindFramebuffer (fbo r),
                   Viewport 0 0 (width r) (height r),
                   ClearColor 0.117 0.117 0.117 1.0,
                   ClearColorDepth] g
      in if vertex_count r = 0 \<or> index_count r = 0
         then (texture r, r, glcall (BindFramebuffer 0) g)
         else
           let (model, view, projection) = setup_matrices r;
               g = (if representation r = REPRESENTATION_SURFACE
                       \<or> representation r = REPRESENTATION_SURFACE_WITH_EDGES
                    then render_surface p r model view projection g else g);
               g = (if representation r = REPRESENTATION_WIREFRAME
                       \<or> representation r = REPRESENTATION_SURFACE_WITH_EDGES
                    then render_edges p r model view projection g else g);
               g = gls [BindVertexArray 0, BindFramebuffer 0] g
           in (texture r, r, g))"

definition resize ::
  "platform \<Rightarrow> int32_t \<Rightarrow> int32_t \<Rightarrow> FoamRenderer \<Rightarrow> gl_state \<Rightarrow> FoamRenderer \<times> gl_state" where
  "resize p w h r g =
     (let r = r\<lparr>width := w, height := h\<rparr>
      in create_framebuffer p w h r g)"

section \<open>The C boundary\<close>

text \<open>
  A handle is a pointer to a renderer on the heap: \<open>None\<close> is the null pointer,
  \<open>Some a\<close> the address \<open>a\<close>. \<^verbatim>\<open>new\<close> never returns null. A handle that is not
  null and names no live renderer is dangling; using it is a fault.
\<close>

type_synonym FoamRendererHandle = "nat option"

record world =
  heap :: "(nat \<times> FoamRenderer) list"
  glst :: gl_state

definition deref :: "world \<Rightarrow> nat \<Rightarrow> fault + FoamRenderer" where
  "deref w a = (case map_of (heap w) a of None \<Rightarrow> Inl DanglingHandle | Some r \<Rightarrow> Inr r)"

definition foam_renderer_create ::
  "platform \<Rightarrow> (nat \<Rightarrow> FoamRenderer) \<Rightarrow> world \<Rightarrow> int32_t \<Rightarrow> int32_t \<Rightarrow> FoamRendererHandle \<times> world" where
  "foam_renderer_create p raw w width' height' =
     (let a = new_addr p (map fst (heap w));
          (r, g) = FoamRenderer_ctor p (raw a) width' height' (glst w)
      in (Some a, w\<lparr>heap := AList.update a r (heap w), glst := g\<rparr>))"

definition foam_renderer_destroy :: "world \<Rightarrow> FoamRendererHandle \<Rightarrow> fault + world" where
  "foam_renderer_destroy w handle =
     (case handle of
        Some a \<Rightarrow>
          bind_f (deref w a) (\<lambda>r.
          Inr (w\<lparr>heap := AList.delete a (heap w), glst := FoamRenderer_dtor r (glst w)\<rparr>))
      | None \<Rightarrow> Inr w)"

definition foam_renderer_update_mesh ::
  "world \<Rightarrow> FoamRendererHandle \<Rightarrow> float list option \<Rightarrow> int32_t \<Rightarrow> uint32_t list option \<Rightarrow> int32_t \<Rightarrow>
     float list option \<Rightarrow> float list option \<Rightarrow> int32_t \<Rightarrow> fault + world" where
  "foam_renderer_update_mesh w handle vertices' vertex_count' indices' index_count'
       colors cell_colors' cell_count' =
     (case handle of
        Some a \<Rightarrow>
          bind_f (deref w a) (\<lambda>renderer.
          bind_f (update_mesh_data renderer (glst w) vertices' vertex_count' indices' index_count'
                    colors cell_colors' cell_count') (\<lambda>(renderer, g).
          Inr (w\<lparr>heap := AList.update a renderer (heap w), glst := g\<rparr>)))
      | None \<Rightarrow> Inr w)"

definition foam_renderer_set_view ::
  "world \<Rightarrow> FoamRendererHandle \<Rightarrow> float \<Rightarrow> float \<Rightarrow> float \<Rightarrow> float \<Rightarrow> float \<Rightarrow> float \<Rightarrow> fault + world" where
  "foam_renderer_set_view w handle rotation_x' rotation_y' zoom' center_x center_y center_z =
     (case handle of
        Some a \<Rightarrow>
          bind_f (deref w a) (\<lambda>renderer.
          let renderer = renderer\<lparr>rotation_x := rotation_x'\<rparr>;
              renderer = renderer\<lparr>rotation_y := rotation_y'\<rparr>;
              renderer = renderer\<lparr>zoom := zoom'\<rparr>;
              renderer = renderer\<lparr>mesh_center := Vec3 center_x center_y center_z\<rparr>
          in Inr (w\<lparr>heap := AList.update a renderer (heap w)\<rparr>))
      | None \<Rightarrow> Inr w)"

definition foam_renderer_set_mode ::
  "world \<Rightarrow> FoamRendererHandle \<Rightarrow> MeshRepresentation \<Rightarrow> DataMode \<Rightarrow> fault + world" where
  "foam_renderer_set_mode w handle representation' data_mode' =
     (case handle of
        Some a \<Rightarrow>
          bind_f (deref w a) (\<lambda>renderer.
          let renderer = renderer\<lparr>representation := representation'\<rparr>;
              renderer = renderer\<lparr>data_mode := data_mode'\<rparr>
          in Inr (w\<lparr>heap := AList.update a renderer (heap w)\<rparr>))
      | None \<Rightarrow> Inr w)"

definition foam_renderer_render ::
  "platform \<Rightarrow> world \<Rightarrow> FoamRendererHandle \<Rightarrow> fault + (uint32_t \<times> world)" where
  "foam_renderer_render p w handle =
     (case handle of
        Some a \<Rightarrow>
          bind_f (deref w a) (\<lambda>renderer.
          let (t, renderer, g) = render p renderer (glst w)
          in Inr (t, w\<lparr>heap := AList.update a renderer (heap w), glst := g\<rparr>))
      | None \<Rightarrow> Inr (0, w))"

definition foam_renderer_resize ::
  "platform \<Rightarrow> world \<Rightarrow> FoamRendererHandle \<Rightarrow> int32_t \<Rightarrow> int32_t \<Rightarrow> fault + world" where
  "foam_renderer_resize p w handle width' height' =
     (case handle of
        Some a \<Rightarrow>
          bind_f (deref w a) (\<lambda>renderer.
          let (renderer, g) = resize p width' height' renderer (glst w)
          in Inr (w\<lparr>heap := AList.update a renderer (heap w), glst := g\<rparr>))
      | None \<Rightarrow> Inr w)"

definition foam_renderer_get_texture ::
  "world \<Rightarrow> FoamRendererHandle \<Rightarrow> fault + (uint32_t \<times> world)" where
  "foam_renderer_get_texture w handle =
     (case handle of
        Some a \<Rightarrow> bind_f (deref w a) (\<lambda>renderer. Inr (texture renderer, w))
      | None \<Rightarrow> Inr (0, w))"

section \<open>Observations and caller contract\<close>

text \<open>The three groups of members the class marks by comments: mesh data, view
  parameters and rendering mode.\<close>

definition mesh_snapshot ::
  "FoamRenderer \<Rightarrow> float list \<times> uint32_t list \<times> float list \<times> float list \<times> int \<times> int \<times> int" where
  "mesh_snapshot r =
     (vertices r, indices r, vertex_colors r, cell_colors r,
      vertex_count r, index_count r, cell_count r)"

definition view_state :: "FoamRenderer \<Rightarrow> float \<times> float \<times> float \<times> vec3" where
  "view_state r = (rotation_x r, rotation_y r, zoom r, mesh_center r)"

definition display_mode :: "FoamRenderer \<Rightarrow> MeshRepresentation \<times> DataMode" where
  "display_mode r = (representation r, data_mode r)"

definition user_state ::
  "FoamRenderer \<Rightarrow>
     (float list \<times> uint32_t list \<times> float list \<times> float list \<times> int \<times> int \<times> int)
     \<times> (float \<times> float \<times> float \<times> vec3) \<times> (MeshRepresentation \<times> DataMode)" where
  "user_state r = (mesh_snapshot r, view_state r, display_mode r)"

text \<open>The window and the two programs a renderer draws with.\<close>

definition pipeline :: "FoamRenderer \<Rightarrow> nat \<times> GLuint \<times> GLuint" where
  "pipeline r = (window r, surface_shader r, edge_shader r)"

text \<open>
  The calls on which \<open>update_mesh_data\<close> is defined: a pointer addresses at least
  the elements read through it, and no product of a count leaves the range of
  \<^verbatim>\<open>int32_t\<close> (lemma \<open>update_mesh_data_Inr\<close> below shows that these are exactly the
  calls that return).
\<close>

definition array_has :: "'a list option \<Rightarrow> int \<Rightarrow> bool" where
  "array_has p n \<longleftrightarrow> 0 \<le> n \<and> (case p of None \<Rightarrow> n = 0 | Some xs \<Rightarrow> nat n \<le> length xs)"

definition array_take :: "'a list option \<Rightarrow> int \<Rightarrow> 'a list" where
  "array_take p n = (case p of None \<Rightarrow> [] | Some xs \<Rightarrow> take (nat n) xs)"

definition update_mesh_args_valid ::
  "float list option \<Rightarrow> int \<Rightarrow> uint32_t list option \<Rightarrow> int \<Rightarrow>
     float list option \<Rightarrow> float list option \<Rightarrow> int \<Rightarrow> bool" where
  "update_mesh_args_valid verts vert_count inds ind_count colors c_colors c_count \<longleftrightarrow>
     0 \<le> vert_count \<and> vert_count * 4 \<le> INT32_MAX
     \<and> array_has verts (vert_count * 3)
     \<and> array_has inds ind_count
     \<and> (colors = None \<or> array_has colors (vert_count * 4))
     \<and> (c_colors = None \<or>
          (INT32_MIN \<le> c_count * 4 \<and> c_count * 4 \<le> INT32_MAX \<and> array_has c_colors (c_count * 4)))"

text \<open>What a call stores as per-vertex colours, in closed form.\<close>

definition stored_vertex_colors :: "float list option \<Rightarrow> int \<Rightarrow> float list" where
  "stored_vertex_colors colors vert_count =
     (case colors of
        Some cs \<Rightarrow> take (nat (vert_count * 4)) cs
      | None \<Rightarrow> concat (replicate (nat vert_count) [0.5, 0.7, 1, 1]))"

text \<open>The calls issued between two states of the log, the calls of one \<open>render\<close>,
  and the kinds of call the theorems ask about.\<close>

definition emitted :: "gl_state \<Rightarrow> gl_state \<Rightarrow> gl_call list" where
  "emitted g g' = drop (length (calls g)) (calls g')"

fun is_draw :: "gl_call \<Rightarrow> bool" where
  "is_draw (DrawElementsTriangles n) = True"
| "is_draw c = False"


fun matrix_upload :: "gl_call \<Rightarrow> (int \<times> mat4 option) list" where
  "matrix_upload (UniformMatrix4fv loc m) = [(loc, m)]"
| "matrix_upload c = []"

section \<open>Runs of calls on a handle\<close>

text \<open>
  A caller's run of calls on one handle, to state what holds between calls: each
  constructor is one entry point of the header with its arguments, and a run stops
  at the first fault.
\<close>

datatype api_call =
    CallUpdateMesh "float list option" int32_t "uint32_t list option" int32_t
      "float list option" "float list option" int32_t
  | CallSetView float float float float float float
  | CallSetMode MeshRepresentation DataMode
  | CallRender
  | CallResize int32_t int32_t
  | CallGetTexture

fun api_step :: "platform \<Rightarrow> FoamRendererHandle \<Rightarrow> world \<Rightarrow> api_call \<Rightarrow> fault + world" where
  "api_step p h w (CallUpdateMesh verts vc inds ic colors c_colors cc) =
     foam_renderer_update_mesh w h verts vc inds ic colors c_colors cc"
| "api_step p h w (CallSetView rx ry z cx cy cz) = foam_renderer_set_view w h rx ry z cx cy cz"
| "api_step p h w (CallSetMode rep dm) = foam_renderer_set_mode w h rep dm"
| "api_step p h w CallRender = bind_f (foam_renderer_render p w h) (\<lambda>(t, w'). Inr w')"
| "api_step p h w (CallResize wd ht) = foam_renderer_resize p w h wd ht"
| "api_step p h w CallGetTexture = bind_f (foam_renderer_get_texture w h) (\<lambda>(t, w'). Inr w')"

fun api_run :: "platform \<Rightarrow> FoamRendererHandle \<Rightarrow> world \<Rightarrow> api_call list \<Rightarrow> fault + world" where
  "api_run p h w [] = Inr w"
| "api_run p h w (c # cs) = bind_f (api_step p h w c) (\<lambda>w'. api_run p h w' cs)"

fun is_resize :: "api_call \<Rightarrow> bool" where
  "is_resize (CallResize wd ht) = True"
| "is_resize c = False"

fun is_setter :: "api_call \<Rightarrow> bool" where
  "is_setter (CallUpdateMesh verts vc inds ic colors c_colors cc) = True"
| "is_setter (CallSetView rx ry z cx cy cz) = True"
| "is_setter (CallSetMode rep dm) = True"
| "is_setter c = False"

definition object_at :: "world \<Rightarrow> FoamRendererHandle \<Rightarrow> FoamRenderer option" where
  "object_at w h = (case h of None \<Rightarrow> None | Some a \<Rightarrow> map_of (heap w) a)"

section \<open>The transformations the specification names\<close>

text \<open>
  Written out on points, to compare the matrices of \<open>setup_matrices\<close> with: the
  rotations about the X and the Y axis by the right-hand rule, a translation, a
  point in homogeneous coordinates, and the perspective matrix of a symmetric
  frustum with the vertical field of view \<open>fovy\<close>.
\<close>

definition rotate_about_x :: "float \<Rightarrow> vec3 \<Rightarrow> vec3" where
  "rotate_about_x a v =
     Vec3 (vx v) (vy v * cos a - vz v * sin a) (vy v * sin a + vz v * cos a)"

definition rotate_about_y :: "float \<Rightarrow> vec3 \<Rightarrow> vec3" where
  "rotate_about_y a v =
     Vec3 (vx v * cos a + vz v * sin a) (vy v) (vz v * cos a - vx v * sin a)"

definition translate_by :: "vec3 \<Rightarrow> vec3 \<Rightarrow> vec3" where
  "translate_by t v = Vec3 (vx v + vx t) (vy v + vy t) (vz v + vz t)"

definition point4 :: "vec3 \<Rightarrow> vec4" where
  "point4 v = Vec4 (vx v) (vy v) (vz v) 1"

definition perspective_matrix :: "float \<Rightarrow> float \<Rightarrow> float \<Rightarrow> float \<Rightarrow> mat4" where
  "perspective_matrix fovy aspect near far =
     Mat4 (Vec4 (1 / (aspect * tan (fovy / 2))) 0 0 0)
          (Vec4 0 (1 / tan (fovy / 2)) 0 0)
          (Vec4 0 0 (- (far + near) / (far - near)) (- 1))
          (Vec4 0 0 (- (2 * far * near) / (far - near)) 0)"

section \<open>An example platform and example inputs\<close>

text \<open>
  A driver that hands out the lowest positive name not in use, as common drivers
  do; an allocator and a window system that hand out the address after the highest
  one in use; every shader compiles.
\<close>

fun find_free :: "nat \<Rightarrow> GLuint \<Rightarrow> GLuint list \<Rightarrow> GLuint" where
  "find_free 0 n used = n"
| "find_free (Suc k) n used = (if n \<in> set used then find_free k (n + 1) used else n)"

definition lowest_free :: "GLuint list \<Rightarrow> GLuint" where
  "lowest_free used = find_free (length used) 1 used"

definition next_above :: "nat list \<Rightarrow> nat" where
  "next_above xs = Suc (foldr max xs 0)"

definition example_platform :: platform where
  "example_platform =
     \<lparr>new_addr = next_above, glfw_init_ok = True, glfw_window = next_above,
      glew_init_ok = True, gen_name = (\<lambda>ns history used. lowest_free used),
      compile_ok = (\<lambda>n. True), link_ok = (\<lambda>n. True), info_log = (\<lambda>n. []),
      framebuffer_complete = (\<lambda>n. True),
      uniform_location = (\<lambda>prog name.
         if name = ''model'' then 0 else if name = ''view'' then 1
         else if name = ''projection'' then 2 else if name = ''edgeColor'' then 3 else - 1)\<rparr>"

text \<open>Zeroed raw storage, the state before any call, and a renderer created there.\<close>

definition raw_zero :: FoamRenderer where
  "raw_zero =
     \<lparr>window = 0, width = 0, height = 0, surface_shader = 0, edge_shader = 0,
      surface_vao = 0, surface_vbo = 0, surface_ebo = 0, surface_color_vbo = 0,
      edge_vao = 0, edge_vbo = 0, edge_ebo = 0, fbo = 0, texture = 0, rbo = 0,
      vertices = [], indices = [], vertex_colors = [], cell_colors = [],
      vertex_count = 0, index_count = 0, cell_count = 0,
      rotation_x = 0, rotation_y = 0, zoom = 0, mesh_center = Vec3 0 0 0,
      representation = 0, data_mode = 0\<rparr>"

definition raw_storage_zero :: "nat \<Rightarrow> FoamRenderer" where
  "raw_storage_zero a = raw_zero"

definition gl_initial :: gl_state where
  "gl_initial = \<lparr>windows = [], current = 0, names = (\<lambda>win ns. []), calls = [], cerr = []\<rparr>"

definition world_initial :: world where
  "world_initial = \<lparr>heap = [], glst = gl_initial\<rparr>"

definition example_created :: "FoamRendererHandle \<times> world" where
  "example_created = foam_renderer_create example_platform raw_storage_zero world_initial 640 480"

text \<open>One triangle, uploaded with default colours; a fourth index; one red cell; a
  renderer whose framebuffer names are \<open>1\<close>; two runs of calls.\<close>

definition triangle_vertices :: "float list" where
  "triangle_vertices = [0, 0, 0, 1, 0, 0, 0, 1, 0]"

definition triangle_indices :: "uint32_t list" where
  "triangle_indices = [0, 1, 2]"

definition four_indices :: "uint32_t list" where
  "four_indices = [0, 1, 2, 0]"

definition red_cell :: "float list" where
  "red_cell = [1, 0, 0, 1]"

definition triangle_renderer :: FoamRenderer where
  "triangle_renderer =
     fst (projr (update_mesh_data (member_init raw_zero 640 480) gl_initial
                   (Some triangle_vertices) 3 (Some triangle_indices) 3 None None 0))"

definition render_calls :: "platform \<Rightarrow> FoamRenderer \<Rightarrow> gl_call list" where
  "render_calls p r = emitted gl_initial (snd (snd (render p r gl_initial)))"


definition bound_renderer :: FoamRenderer where
  "bound_renderer = raw_zero\<lparr>fbo := 1, texture := 1, rbo := 1\<rparr>"

definition passive_calls :: "api_call list" where
  "passive_calls = [CallRender, CallResize 800 600, CallRender, CallGetTexture]"

definition view_calls :: "api_call list" where
  "view_calls = [CallGetTexture, CallSetView 0 0 100 0 0 0, CallSetMode 2 1, CallRender]"

section \<open>What the driver does with the calls\<close>

text \<open>
  What the driver does with the calls. A context holds the state a draw reads: the
  framebuffer bound, viewport, clear colour, program in use, the uniforms of every
  program, polygon mode, capabilities, vertex arrays and buffers. The content of a
  framebuffer is kept as the colour it was last cleared to and the draws issued
  since, each with the state it read; the pixels are a function of that. The
  initial values are those of OpenGL (the initial viewport, the window's size, is
  not in the log and stands as zero; every frame sets it before it draws; the
  depth function starts as less, which is all the renderer sets it to). A
  framebuffer's content is kept under its name; deleting a buffer, a vertex array
  or a framebuffer resets it and unbinds it.
\<close>

datatype uniform_value = UniformMat "mat4 option" | UniformVec4 float float float float

record attrib_state =
  attrib_enabled :: bool
  attrib_buffer :: GLuint
  attrib_size :: nat
  attrib_stride :: nat

record vao_state =
  vao_attribs :: "nat \<Rightarrow> attrib_state"
  vao_elements :: GLuint

record draw_snapshot =
  d_viewport :: "int \<times> int \<times> int \<times> int"
  d_program :: GLuint
  d_uniforms :: "int \<Rightarrow> uniform_value option"
  d_polygon :: polygon_mode
  d_caps :: "gl_cap \<Rightarrow> bool"
  d_blend_src_alpha :: bool
  d_vao :: vao_state
  d_buffers :: "GLuint \<Rightarrow> buffer_data option"
  d_count :: int

record frame =
  cleared_to :: "(float \<times> float \<times> float \<times> float) option"
  draws :: "draw_snapshot list"

record context_state =
  c_framebuffer :: GLuint
  c_viewport :: "int \<times> int \<times> int \<times> int"
  c_clear_color :: "float \<times> float \<times> float \<times> float"
  c_program :: GLuint
  c_uniforms :: "GLuint \<Rightarrow> int \<Rightarrow> uniform_value option"
  c_polygon :: polygon_mode
  c_caps :: "gl_cap \<Rightarrow> bool"
  c_blend_src_alpha :: bool
  c_vao :: GLuint
  c_array_buffer :: GLuint
  c_vaos :: "GLuint \<Rightarrow> vao_state"
  c_buffers :: "GLuint \<Rightarrow> buffer_data option"
  c_frames :: "GLuint \<Rightarrow> frame"

definition vao_default :: vao_state where
  "vao_default =
     \<lparr>vao_attribs = (\<lambda>i. \<lparr>attrib_enabled = False, attrib_buffer = 0,
                             attrib_size = 4, attrib_stride = 0\<rparr>),
      vao_elements = 0\<rparr>"

definition frame_empty :: frame where
  "frame_empty = \<lparr>cleared_to = None, draws = []\<rparr>"

definition context_default :: context_state where
  "context_default =
     \<lparr>c_framebuffer = 0, c_viewport = (0, 0, 0, 0), c_clear_color = (0, 0, 0, 0),
      c_program = 0, c_uniforms = (\<lambda>prog loc. None), c_polygon = FILL,
      c_caps = (\<lambda>cap. False), c_blend_src_alpha = False, c_vao = 0, c_array_buffer = 0,
      c_vaos = (\<lambda>n. vao_default), c_buffers = (\<lambda>n. None),
      c_frames = (\<lambda>n. frame_empty)\<rparr>"

text \<open>\<^verbatim>\<open>glUniform*\<close> on the location \<open>-1\<close> is ignored.\<close>

definition set_uniform ::
  "int \<Rightarrow> uniform_value \<Rightarrow> (int \<Rightarrow> uniform_value option) \<Rightarrow> (int \<Rightarrow> uniform_value option)" where
  "set_uniform loc v u = (if loc = - 1 then u else u(loc := Some v))"

definition snapshot :: "context_state \<Rightarrow> int \<Rightarrow> draw_snapshot" where
  "snapshot c n =
     \<lparr>d_viewport = c_viewport c, d_program = c_program c,
      d_uniforms = c_uniforms c (c_program c), d_polygon = c_polygon c,
      d_caps = c_caps c, d_blend_src_alpha = c_blend_src_alpha c,
      d_vao = c_vaos c (c_vao c), d_buffers = c_buffers c, d_count = n\<rparr>"

fun ctx_exec :: "gl_call \<Rightarrow> context_state \<Rightarrow> context_state" where
  "ctx_exec (BindFramebuffer n) c = c\<lparr>c_framebuffer := n\<rparr>"
| "ctx_exec (Viewport x y w h) c = c\<lparr>c_viewport := (x, y, w, h)\<rparr>"
| "ctx_exec (ClearColor r g b a) c = c\<lparr>c_clear_color := (r, g, b, a)\<rparr>"
| "ctx_exec ClearColorDepth c =
     c\<lparr>c_frames := (c_frames c)
          (c_framebuffer c := \<lparr>cleared_to = Some (c_clear_color c), draws = []\<rparr>)\<rparr>"
| "ctx_exec (UseProgram n) c = c\<lparr>c_program := n\<rparr>"
| "ctx_exec (UniformMatrix4fv loc m) c =
     c\<lparr>c_uniforms := (c_uniforms c)
          (c_program c := set_uniform loc (UniformMat m) (c_uniforms c (c_program c)))\<rparr>"
| "ctx_exec (Uniform4f loc r g b a) c =
     c\<lparr>c_uniforms := (c_uniforms c)
          (c_program c := set_uniform loc (UniformVec4 r g b a) (c_uniforms c (c_program c)))\<rparr>"
| "ctx_exec (PolygonMode m) c = c\<lparr>c_polygon := m\<rparr>"
| "ctx_exec (Enable cap) c = c\<lparr>c_caps := (c_caps c)(cap := True)\<rparr>"
| "ctx_exec BlendFuncSrcAlpha c = c\<lparr>c_blend_src_alpha := True\<rparr>"
| "ctx_exec (BindVertexArray n) c = c\<lparr>c_vao := n\<rparr>"
| "ctx_exec (BindBuffer ARRAY_BUFFER n) c = c\<lparr>c_array_buffer := n\<rparr>"
| "ctx_exec (BindBuffer ELEMENT_ARRAY_BUFFER n) c =
     c\<lparr>c_vaos := (c_vaos c)(c_vao c := (c_vaos c (c_vao c))\<lparr>vao_elements := n\<rparr>)\<rparr>"
| "ctx_exec (BufferData ARRAY_BUFFER k d) c =
     c\<lparr>c_buffers := (c_buffers c)(c_array_buffer c := Some d)\<rparr>"
| "ctx_exec (BufferData ELEMENT_ARRAY_BUFFER k d) c =
     c\<lparr>c_buffers := (c_buffers c)(vao_elements (c_vaos c (c_vao c)) := Some d)\<rparr>"
| "ctx_exec (VertexAttribPointer i k stride) c =
     c\<lparr>c_vaos := (c_vaos c)
          (c_vao c := (c_vaos c (c_vao c))
             \<lparr>vao_attribs := (vao_attribs (c_vaos c (c_vao c)))
                (i := (vao_attribs (c_vaos c (c_vao c)) i)
                        \<lparr>attrib_buffer := c_array_buffer c, attrib_size := k,
                         attrib_stride := stride\<rparr>)\<rparr>)\<rparr>"
| "ctx_exec (EnableVertexAttribArray i) c =
     c\<lparr>c_vaos := (c_vaos c)
          (c_vao c := (c_vaos c (c_vao c))
             \<lparr>vao_attribs := (vao_attribs (c_vaos c (c_vao c)))
                (i := (vao_attribs (c_vaos c (c_vao c)) i)\<lparr>attrib_enabled := True\<rparr>)\<rparr>)\<rparr>"
| "ctx_exec (DrawElementsTriangles n) c =
     c\<lparr>c_frames := (c_frames c)
          (c_framebuffer c := (c_frames c (c_framebuffer c))
             \<lparr>draws := draws (c_frames c (c_framebuffer c)) @ [snapshot c n]\<rparr>)\<rparr>"
| "ctx_exec (Delete NS_Buffer n) c =
     c\<lparr>c_buffers := (c_buffers c)(n := None),
       c_array_buffer := (if c_array_buffer c = n then 0 else c_array_buffer c)\<rparr>"
| "ctx_exec (Delete NS_VertexArray n) c =
     c\<lparr>c_vaos := (c_vaos c)(n := vao_default),
       c_vao := (if c_vao c = n then 0 else c_vao c)\<rparr>"
| "ctx_exec (Delete NS_Framebuffer n) c =
     c\<lparr>c_frames := (c_frames c)(n := frame_empty),
       c_framebuffer := (if c_framebuffer c = n then 0 else c_framebuffer c)\<rparr>"
| "ctx_exec other c = c"

record server =
  sv_current :: nat
  sv_contexts :: "nat \<Rightarrow> context_state"

definition server_initial :: server where
  "server_initial = \<lparr>sv_current = 0, sv_contexts = (\<lambda>win. context_default)\<rparr>"

fun gl_exec :: "server \<Rightarrow> gl_call \<Rightarrow> server" where
  "gl_exec s (GlfwCreateWindow w h) = s"
| "gl_exec s (GlfwMakeContextCurrent win) = s\<lparr>sv_current := win\<rparr>"
| "gl_exec s (GlfwDestroyWindow win) =
     s\<lparr>sv_current := (if sv_current s = win then 0 else sv_current s),
       sv_contexts := (sv_contexts s)(win := context_default)\<rparr>"
| "gl_exec s GlfwTerminate = server_initial"
| "gl_exec s c =
     s\<lparr>sv_contexts := (sv_contexts s)(sv_current s := ctx_exec c (sv_contexts s (sv_current s)))\<rparr>"

definition server_after :: "gl_state \<Rightarrow> server" where
  "server_after g = foldl gl_exec server_initial (calls g)"


definition polygon_mode_of :: "gl_state \<Rightarrow> nat \<Rightarrow> polygon_mode" where
  "polygon_mode_of g win = c_polygon (sv_contexts (server_after g) win)"

definition render_ctx :: "platform \<Rightarrow> FoamRenderer \<Rightarrow> context_state \<Rightarrow> context_state" where
  "render_ctx p r c = foldl (\<lambda>x call. ctx_exec call x) c (tl (render_calls p r))"

definition surface_uniforms ::
  "platform \<Rightarrow> FoamRenderer \<Rightarrow> (int \<Rightarrow> uniform_value option) \<Rightarrow> (int \<Rightarrow> uniform_value option)" where
  "surface_uniforms p r u =
     set_uniform (uniform_location p (surface_shader r) ''projection'')
       (UniformMat (snd (snd (setup_matrices r))))
       (set_uniform (uniform_location p (surface_shader r) ''view'')
          (UniformMat (Some (fst (snd (setup_matrices r)))))
          (set_uniform (uniform_location p (surface_shader r) ''model'')
             (UniformMat (Some (fst (setup_matrices r)))) u))"

definition edge_uniforms ::
  "platform \<Rightarrow> FoamRenderer \<Rightarrow> (int \<Rightarrow> uniform_value option) \<Rightarrow> (int \<Rightarrow> uniform_value option)" where
  "edge_uniforms p r u =
     set_uniform (uniform_location p (edge_shader r) ''edgeColor'')
       (if representation r = REPRESENTATION_WIREFRAME then UniformVec4 0.25 0.5 1.0 1.0
        else UniformVec4 0.0 0.0 0.0 0.3)
       (set_uniform (uniform_location p (edge_shader r) ''projection'')
          (UniformMat (snd (snd (setup_matrices r))))
          (set_uniform (uniform_location p (edge_shader r) ''view'')
             (UniformMat (Some (fst (snd (setup_matrices r)))))
             (set_uniform (uniform_location p (edge_shader r) ''model'')
                (UniformMat (Some (fst (setup_matrices r)))) u)))"

definition surface_snapshot :: "platform \<Rightarrow> FoamRenderer \<Rightarrow> context_state \<Rightarrow> draw_snapshot" where
  "surface_snapshot p r c =
     \<lparr>d_viewport = (0, 0, width r, height r), d_program = surface_shader r,
      d_uniforms = surface_uniforms p r (c_uniforms c (surface_shader r)),
      d_polygon = c_polygon c, d_caps = c_caps c, d_blend_src_alpha = c_blend_src_alpha c,
      d_vao = c_vaos c (surface_vao r), d_buffers = c_buffers c, d_count = index_count r\<rparr>"

definition edge_snapshot :: "platform \<Rightarrow> FoamRenderer \<Rightarrow> context_state \<Rightarrow> draw_snapshot" where
  "edge_snapshot p r c =
     \<lparr>d_viewport = (0, 0, width r, height r), d_program = edge_shader r,
      d_uniforms = edge_uniforms p r (c_uniforms c (edge_shader r)),
      d_polygon = LINE, d_caps = c_caps c, d_blend_src_alpha = c_blend_src_alpha c,
      d_vao = c_vaos c (edge_vao r), d_buffers = c_buffers c, d_count = index_count r\<rparr>"

definition surface_pass :: "FoamRenderer \<Rightarrow> bool" where
  "surface_pass r \<longleftrightarrow>
     representation r = REPRESENTATION_SURFACE
     \<or> representation r = REPRESENTATION_SURFACE_WITH_EDGES"

definition edge_pass :: "FoamRenderer \<Rightarrow> bool" where
  "edge_pass r \<longleftrightarrow>
     representation r = REPRESENTATION_WIREFRAME
     \<or> representation r = REPRESENTATION_SURFACE_WITH_EDGES"

fun is_glfw :: "gl_call \<Rightarrow> bool" where
  "is_glfw (GlfwCreateWindow w h) = True"
| "is_glfw (GlfwMakeContextCurrent win) = True"
| "is_glfw (GlfwDestroyWindow win) = True"
| "is_glfw GlfwTerminate = True"
| "is_glfw c = False"

definition all_fill :: "gl_state \<Rightarrow> bool" where
  "all_fill g \<longleftrightarrow> (\<forall>win. polygon_mode_of g win = FILL)"

definition conforming :: "platform \<Rightarrow> bool" where
  "conforming p \<longleftrightarrow> (\<forall>ns history used. gen_name p ns history used \<notin> set used)"

section \<open>Mesh upload: what is stored\<close>

lemma default_color_step_length: "length (default_color_step cs i) = length cs"
  by (simp add: default_color_step_def)

lemma default_color_step_nth:
  "j < length cs \<Longrightarrow>
   default_color_step cs i ! j =
     (if j = i * 4 + 3 then 1 else if j = i * 4 + 2 then 1
      else if j = i * 4 + 1 then 0.7 else if j = i * 4 then 0.5 else cs ! j)"
  by (simp add: default_color_step_def nth_list_update)

lemma default_color_loop_length: "length (default_color_loop k cs) = length cs"
  by (induction k) (simp_all add: default_color_loop_def default_color_step_length)

lemma default_color_loop_Suc:
  "default_color_loop (Suc k) cs = default_color_step (default_color_loop k cs) k"
  by (simp add: default_color_loop_def)

lemma default_color_loop_nth:
  "j < length cs \<Longrightarrow>
   default_color_loop k cs ! j = (if j < 4 * k then [0.5, 0.7, 1, 1] ! (j mod 4) else cs ! j)"
proof (induction k)
  case 0
  then show ?case by (simp add: default_color_loop_def)
next
  case (Suc k)
  have len: "j < length (default_color_loop k cs)"
    using Suc.prems by (simp add: default_color_loop_length)
  have m: "(k * 4 + 3) mod 4 = 3" "(k * 4 + 2) mod 4 = 2" "(k * 4 + 1) mod 4 = 1" "(k * 4) mod 4 = 0"
    by presburger+
  consider "j = k * 4 + 3" | "j = k * 4 + 2" | "j = k * 4 + 1" | "j = k * 4" | "j < 4 * k" | "4 * k + 4 \<le> j"
    by linarith
  then show ?case
  proof cases
    case 1 then show ?thesis using len m by (simp add: default_color_loop_Suc default_color_step_nth)
  next
    case 2 then show ?thesis using len m by (simp add: default_color_loop_Suc default_color_step_nth)
  next
    case 3 then show ?thesis using len m by (simp add: default_color_loop_Suc default_color_step_nth)
  next
    case 4 then show ?thesis using len m by (simp add: default_color_loop_Suc default_color_step_nth)
  next
    case 5 then show ?thesis using len Suc by (simp add: default_color_loop_Suc default_color_step_nth)
  next
    case 6 then show ?thesis using len Suc by (simp add: default_color_loop_Suc default_color_step_nth)
  qed
qed

lemma nth_concat_replicate4:
  "j < 4 * n \<Longrightarrow> concat (replicate n [a, b, c, d]) ! j = [a, b, c, d] ! (j mod 4)"
proof (induction n arbitrary: j)
  case 0
  then show ?case by simp
next
  case (Suc n)
  show ?case
  proof (cases "j < 4")
    case True
    then consider "j = 0" | "j = 1" | "j = 2" | "j = 3" by linarith
    then show ?thesis by cases simp_all
  next
    case False
    then have "j - 4 < 4 * n" and "(j - 4) mod 4 = j mod 4"
      using Suc.prems by presburger+
    moreover have "concat (replicate (Suc n) [a, b, c, d]) ! j =
        ([a, b, c, d] @ concat (replicate n [a, b, c, d])) ! j"
      by simp
    moreover have "([a, b, c, d] @ concat (replicate n [a, b, c, d])) ! j =
        concat (replicate n [a, b, c, d]) ! (j - 4)"
      using False by (subst nth_append) (simp add: eval_nat_numeral)
    ultimately show ?thesis using Suc.IH [of "j - 4"] by presburger
  qed
qed

lemma default_color_loop_full:
  "length cs = 4 * n \<Longrightarrow> default_color_loop n cs = concat (replicate n [0.5, 0.7, 1, 1])"
  by (rule nth_equalityI)
     (simp_all add: default_color_loop_length default_color_loop_nth nth_concat_replicate4
        length_concat sum_list_replicate)

lemma read_array_Inr: "read_array p n = Inr ys \<longleftrightarrow> array_has p n \<and> ys = array_take p n"
  by (auto simp: read_array_def array_has_def array_take_def split: option.splits)

lemma mul_i32_Inr: "mul_i32 a b = Inr c \<longleftrightarrow> INT32_MIN \<le> a * b \<and> a * b \<le> INT32_MAX \<and> c = a * b"
  by (auto simp: mul_i32_def)

lemma bind_f_Inr: "bind_f m k = Inr y \<longleftrightarrow> (\<exists>x. m = Inr x \<and> k x = Inr y)"
  by (cases m) (simp_all add: bind_f_def)

lemma vec_resize_length: "length (vec_resize k xs) = k"
  by (simp add: vec_resize_def)

lemma default_color_loop_resized:
  "0 \<le> vc \<Longrightarrow>
   default_color_loop (nat vc) (vec_resize (nat (vc * 4)) xs) =
     concat (replicate (nat vc) [0.5, 0.7, 1, 1])"
  by (rule default_color_loop_full) (simp add: vec_resize_length nat_mult_distrib)

lemma update_mesh_data_Inr:
  "update_mesh_data r g verts vc inds ic colors c_colors cc = Inr (r', g') \<longleftrightarrow>
     update_mesh_args_valid verts vc inds ic colors c_colors cc
     \<and> r' = r\<lparr>vertex_count := vc, index_count := ic, cell_count := cc,
              vertices := array_take verts (vc * 3), indices := array_take inds ic,
              vertex_colors := stored_vertex_colors colors vc,
              cell_colors := (case c_colors of Some ccs \<Rightarrow> take (nat (cc * 4)) ccs
                                              | None \<Rightarrow> cell_colors r)\<rparr>
     \<and> g' = upload_mesh_to_gpu r' g"
proof (cases "0 \<le> vc")
  case True
  then show ?thesis
    by (auto simp: update_mesh_data_def bind_f_Inr mul_i32_Inr read_array_Inr Let_def
         update_mesh_args_valid_def stored_vertex_colors_def default_color_loop_resized
         array_take_def INT32_MIN_def INT32_MAX_def
         split: option.splits)
next
  case False
  then have "\<not> array_has verts (vc * 3)"
    by (simp add: array_has_def)
  then show ?thesis using False
    by (auto simp: update_mesh_data_def bind_f_Inr mul_i32_Inr read_array_Inr Let_def
         update_mesh_args_valid_def)
qed

lemma update_mesh_data_returns:
  "update_mesh_args_valid verts vc inds ic colors c_colors cc \<Longrightarrow>
   \<exists>r' g'. update_mesh_data r g verts vc inds ic colors c_colors cc = Inr (r', g')"
  by (simp add: update_mesh_data_Inr)

lemma take_drop_concat_replicate:
  assumes "i < n" and "length xs = k"
  shows "take k (drop (k * i) (concat (replicate n xs))) = xs"
proof -
  have "n = i + Suc (n - Suc i)" using assms by simp
  then have "concat (replicate n xs) =
      concat (replicate i xs) @ xs @ concat (replicate (n - Suc i) xs)"
    by (metis concat.simps(2) concat_append replicate_Suc replicate_add)
  then show ?thesis
    using assms(2) by (simp add: length_concat sum_list_replicate)
qed

text \<open>
  Claim C7. A call of \<open>update_mesh_data\<close> whose vertex-colour argument is null
  returns on every valid call, and then stores \<open>4 n\<close> colour components for the
  \<open>n\<close> vertices, the four of every vertex being \<open>(0.5, 0.7, 1.0, 1.0)\<close>, whatever
  the vector held before.
\<close>

theorem update_mesh_default_vertex_colors:
  "(update_mesh_args_valid verts n inds ic None c_colors cc \<longrightarrow>
      (\<exists>r' g'. update_mesh_data r g verts n inds ic None c_colors cc = Inr (r', g')))
   \<and> (\<forall>r' g'. update_mesh_data r g verts n inds ic None c_colors cc = Inr (r', g') \<longrightarrow>
         vertex_count r' = n
         \<and> int (length (vertex_colors r')) = 4 * n
         \<and> (\<forall>i. i < nat n \<longrightarrow>
               take 4 (drop (4 * i) (vertex_colors r')) = [0.5, 0.7, 1.0, 1.0]))"
proof (intro conjI allI impI)
  assume "update_mesh_args_valid verts n inds ic None c_colors cc"
  then show "\<exists>r' g'. update_mesh_data r g verts n inds ic None c_colors cc = Inr (r', g')"
    by (rule update_mesh_data_returns)
next
  fix r' g'
  assume "update_mesh_data r g verts n inds ic None c_colors cc = Inr (r', g')"
  then have v: "update_mesh_args_valid verts n inds ic None c_colors cc"
    and c: "vertex_colors r' = concat (replicate (nat n) [0.5, 0.7, 1, 1])"
    and k: "vertex_count r' = n"
    by (simp_all add: update_mesh_data_Inr stored_vertex_colors_def)
  from v have n0: "0 \<le> n" by (simp add: update_mesh_args_valid_def)
  show "vertex_count r' = n" by (rule k)
  show "int (length (vertex_colors r')) = 4 * n"
    using n0 by (simp add: c length_concat sum_list_replicate)
  fix i assume "i < nat n"
  then show "take 4 (drop (4 * i) (vertex_colors r')) = [0.5, 0.7, 1.0, 1.0]"
    using take_drop_concat_replicate [of i "nat n" "[0.5, 0.7, 1, 1::real]" 4]
    by (simp add: c)
qed

theorem update_mesh_default_vertex_colors_witness:
  "update_mesh_args_valid (Some triangle_vertices) 3 (Some triangle_indices) 3 None None 0
   \<and> \<not> isl (update_mesh_data (member_init raw_zero 640 480) gl_initial
               (Some triangle_vertices) 3 (Some triangle_indices) 3 None None 0)
   \<and> length (vertex_colors (fst (projr (update_mesh_data (member_init raw_zero 640 480) gl_initial
               (Some triangle_vertices) 3 (Some triangle_indices) 3 None None 0)))) = 12
   \<and> take 4 (drop 8 (vertex_colors (fst (projr (update_mesh_data (member_init raw_zero 640 480)
               gl_initial (Some triangle_vertices) 3 (Some triangle_indices) 3 None None 0)))))
       = [0.5, 0.7, 1, 1]"
proof -
  let ?U = "update_mesh_data (member_init raw_zero 640 480) gl_initial
               (Some triangle_vertices) 3 (Some triangle_indices) 3 None None 0"
  note T = update_mesh_default_vertex_colors
             [of "Some triangle_vertices" 3 "Some triangle_indices" 3 None 0
                 "member_init raw_zero 640 480" gl_initial]
  have v: "update_mesh_args_valid (Some triangle_vertices) 3 (Some triangle_indices) 3 None None 0"
    by (simp add: update_mesh_args_valid_def array_has_def triangle_vertices_def
          triangle_indices_def INT32_MAX_def)
  with T obtain r' g' where u: "?U = Inr (r', g')" by blast
  with T have len: "int (length (vertex_colors r')) = 4 * 3"
    and c: "\<And>i. i < nat 3 \<Longrightarrow> take 4 (drop (4 * i) (vertex_colors r')) = [0.5, 0.7, 1.0, 1.0]"
    by blast+
  from c [of 2] have "take 4 (drop 8 (vertex_colors r')) = [0.5, 0.7, 1, 1]" by simp
  with v u len show ?thesis by simp
qed

lemma array_take_length: "array_has p n \<Longrightarrow> int (length (array_take p n)) = n"
  by (auto simp: array_has_def array_take_def split: option.splits)

text \<open>An upload of one triangle with four indices: \<open>index_count\<close> is \<open>4\<close> afterwards.\<close>

theorem update_mesh_index_count_counterexample:
  "\<not> isl (update_mesh_data (member_init raw_zero 640 480) gl_initial
             (Some triangle_vertices) 3 (Some four_indices) 4 None None 0)
   \<and> \<not> 3 dvd index_count (fst (projr (update_mesh_data (member_init raw_zero 640 480) gl_initial
             (Some triangle_vertices) 3 (Some four_indices) 4 None None 0)))"
proof -
  have "update_mesh_args_valid (Some triangle_vertices) 3 (Some four_indices) 4 None None 0"
    by (simp add: update_mesh_args_valid_def array_has_def triangle_vertices_def
          four_indices_def INT32_MAX_def)
  then obtain r' g' where u: "update_mesh_data (member_init raw_zero 640 480) gl_initial
             (Some triangle_vertices) 3 (Some four_indices) 4 None None 0 = Inr (r', g')"
    using update_mesh_data_returns by blast
  then have "index_count r' = 4"
    by (simp add: update_mesh_data_Inr)
  with u show ?thesis by simp
qed

text \<open>
  Claim C8, as amended. Every valid call of \<open>update_mesh_data\<close> returns, and after a
  call that returns the stored positions are \<open>3\<close> per vertex, the stored indices are
  \<open>index_count\<close> many, and \<open>index_count\<close> is the caller's count: a multiple of \<open>3\<close>
  exactly when the caller passed one. The counterexample before it passes four
  indices.
\<close>

theorem update_mesh_lengths:
  "(update_mesh_args_valid verts vc inds ic colors c_colors cc \<longrightarrow>
      (\<exists>r' g'. update_mesh_data r g verts vc inds ic colors c_colors cc = Inr (r', g')))
   \<and> (\<forall>r' g'. update_mesh_data r g verts vc inds ic colors c_colors cc = Inr (r', g') \<longrightarrow>
         vertex_count r' = vc
         \<and> int (length (vertices r')) = vertex_count r' * 3
         \<and> index_count r' = ic
         \<and> int (length (indices r')) = index_count r'
         \<and> (3 dvd index_count r' \<longleftrightarrow> 3 dvd ic))"
proof (intro conjI allI impI)
  assume "update_mesh_args_valid verts vc inds ic colors c_colors cc"
  then show "\<exists>r' g'. update_mesh_data r g verts vc inds ic colors c_colors cc = Inr (r', g')"
    by (rule update_mesh_data_returns)
next
  fix r' g'
  assume u: "update_mesh_data r g verts vc inds ic colors c_colors cc = Inr (r', g')"
  then have v: "update_mesh_args_valid verts vc inds ic colors c_colors cc"
    by (simp add: update_mesh_data_Inr)
  from u show "vertex_count r' = vc" and i: "index_count r' = ic"
    by (simp_all add: update_mesh_data_Inr)
  from u v show "int (length (vertices r')) = vertex_count r' * 3"
    by (simp add: update_mesh_data_Inr update_mesh_args_valid_def array_take_length)
  from u v show "int (length (indices r')) = index_count r'"
    by (simp add: update_mesh_data_Inr update_mesh_args_valid_def array_take_length)
  from i show "(3 dvd index_count r') = (3 dvd ic)" by simp
qed

theorem update_mesh_lengths_witness:
  "update_mesh_args_valid (Some triangle_vertices) 3 (Some four_indices) 4 None None 0
   \<and> \<not> isl (update_mesh_data (member_init raw_zero 640 480) gl_initial
               (Some triangle_vertices) 3 (Some four_indices) 4 None None 0)
   \<and> length (vertices (fst (projr (update_mesh_data (member_init raw_zero 640 480) gl_initial
               (Some triangle_vertices) 3 (Some four_indices) 4 None None 0)))) = 9
   \<and> length (indices (fst (projr (update_mesh_data (member_init raw_zero 640 480) gl_initial
               (Some triangle_vertices) 3 (Some four_indices) 4 None None 0)))) = 4
   \<and> index_count (fst (projr (update_mesh_data (member_init raw_zero 640 480) gl_initial
               (Some triangle_vertices) 3 (Some four_indices) 4 None None 0))) = 4"
proof -
  note T = update_mesh_lengths
             [of "Some triangle_vertices" 3 "Some four_indices" 4 None None 0
                 "member_init raw_zero 640 480" gl_initial]
  have v: "update_mesh_args_valid (Some triangle_vertices) 3 (Some four_indices) 4 None None 0"
    by (simp add: update_mesh_args_valid_def array_has_def triangle_vertices_def
          four_indices_def INT32_MAX_def)
  with T obtain r' g' where u: "update_mesh_data (member_init raw_zero 640 480) gl_initial
               (Some triangle_vertices) 3 (Some four_indices) 4 None None 0 = Inr (r', g')"
    by blast
  with T have "vertex_count r' = 3" "int (length (vertices r')) = vertex_count r' * 3"
    "index_count r' = 4" "int (length (indices r')) = index_count r'"
    by blast+
  with v u show ?thesis by simp
qed

lemma update_mesh_data_null_cell_colors:
  "update_mesh_data r g verts vc inds ic colors None cc = Inr (r', g') \<Longrightarrow>
   cell_count r' = cc \<and> cell_colors r' = cell_colors r"
  by (simp add: update_mesh_data_Inr)

text \<open>
  Claim C1. Two uploads in a row, the first with one red cell, the second with a
  null cell-colour argument and a cell count of \<open>0\<close>: the second leaves the red cell
  of the first in \<open>cell_colors\<close> while \<open>cell_count\<close> is \<open>0\<close>. Vertices, indices,
  vertex colours and the counts are replaced (lemma \<open>update_mesh_data_Inr\<close>).
\<close>

theorem update_mesh_stale_cell_colors:
  "\<not> isl (update_mesh_data (member_init raw_zero 640 480) gl_initial
             (Some triangle_vertices) 3 (Some triangle_indices) 3 None (Some red_cell) 1)
   \<and> \<not> isl (update_mesh_data
               (fst (projr (update_mesh_data (member_init raw_zero 640 480) gl_initial
                  (Some triangle_vertices) 3 (Some triangle_indices) 3 None (Some red_cell) 1)))
               (snd (projr (update_mesh_data (member_init raw_zero 640 480) gl_initial
                  (Some triangle_vertices) 3 (Some triangle_indices) 3 None (Some red_cell) 1)))
               (Some triangle_vertices) 3 (Some triangle_indices) 3 None None 0)
   \<and> cell_count (fst (projr (update_mesh_data
               (fst (projr (update_mesh_data (member_init raw_zero 640 480) gl_initial
                  (Some triangle_vertices) 3 (Some triangle_indices) 3 None (Some red_cell) 1)))
               (snd (projr (update_mesh_data (member_init raw_zero 640 480) gl_initial
                  (Some triangle_vertices) 3 (Some triangle_indices) 3 None (Some red_cell) 1)))
               (Some triangle_vertices) 3 (Some triangle_indices) 3 None None 0))) = 0
   \<and> cell_colors (fst (projr (update_mesh_data
               (fst (projr (update_mesh_data (member_init raw_zero 640 480) gl_initial
                  (Some triangle_vertices) 3 (Some triangle_indices) 3 None (Some red_cell) 1)))
               (snd (projr (update_mesh_data (member_init raw_zero 640 480) gl_initial
                  (Some triangle_vertices) 3 (Some triangle_indices) 3 None (Some red_cell) 1)))
               (Some triangle_vertices) 3 (Some triangle_indices) 3 None None 0))) = [1, 0, 0, 1]"
proof -
  have v1: "update_mesh_args_valid (Some triangle_vertices) 3 (Some triangle_indices) 3
              None (Some red_cell) 1"
    by (simp add: update_mesh_args_valid_def array_has_def triangle_vertices_def
          triangle_indices_def red_cell_def INT32_MAX_def INT32_MIN_def)
  then obtain r1 g1 where u1: "update_mesh_data (member_init raw_zero 640 480) gl_initial
        (Some triangle_vertices) 3 (Some triangle_indices) 3 None (Some red_cell) 1 = Inr (r1, g1)"
    using update_mesh_data_returns by blast
  then have c1: "cell_colors r1 = [1, 0, 0, 1]"
    by (simp add: update_mesh_data_Inr red_cell_def)
  have v2: "update_mesh_args_valid (Some triangle_vertices) 3 (Some triangle_indices) 3
              None None 0"
    by (simp add: update_mesh_args_valid_def array_has_def triangle_vertices_def
          triangle_indices_def INT32_MAX_def)
  then obtain r2 g2 where u2: "update_mesh_data r1 g1
        (Some triangle_vertices) 3 (Some triangle_indices) 3 None None 0 = Inr (r2, g2)"
    using update_mesh_data_returns by blast
  from update_mesh_data_null_cell_colors [OF u2] c1
  have "cell_count r2 = 0" "cell_colors r2 = [1, 0, 0, 1]" by simp_all
  with u1 u2 show ?thesis by simp
qed

lemma glcall_proj:
  "current (glcall c g) = current g" "names (glcall c g) = names g"
  "windows (glcall c g) = windows g" "calls (glcall c g) = calls g @ [c]"
  "cerr (glcall c g) = cerr g" "names_in_use (glcall c g) ns = names_in_use g ns"
  by (simp_all add: glcall_def names_in_use_def)

lemma gls_proj:
  "current (gls cs g) = current g" "names (gls cs g) = names g"
  "windows (gls cs g) = windows g" "calls (gls cs g) = calls g @ cs"
  "cerr (gls cs g) = cerr g" "names_in_use (gls cs g) ns = names_in_use g ns"
  by (simp_all add: gls_def names_in_use_def)

lemma log_cerr_proj:
  "current (log_cerr s g) = current g" "names (log_cerr s g) = names g"
  "windows (log_cerr s g) = windows g" "calls (log_cerr s g) = calls g"
  "names_in_use (log_cerr s g) ns = names_in_use g ns"
  by (simp_all add: log_cerr_def names_in_use_def)

lemma set_names_proj:
  "current (set_names ns xs g) = current g"
  "windows (set_names ns xs g) = windows g" "calls (set_names ns xs g) = calls g"
  "cerr (set_names ns xs g) = cerr g"
  "names_in_use (set_names ns xs g) ns' = (if ns' = ns then xs else names_in_use g ns')"
  by (simp_all add: set_names_def names_in_use_def)

lemma gl_gen_proj:
  "fst (gl_gen p ns g) = gen_name p ns (calls g) (names_in_use g ns)"
  "current (snd (gl_gen p ns g)) = current g"
  "windows (snd (gl_gen p ns g)) = windows g"
  "cerr (snd (gl_gen p ns g)) = cerr g"
  "calls (snd (gl_gen p ns g)) = calls g @ [Gen ns (gen_name p ns (calls g) (names_in_use g ns))]"
  "names_in_use (snd (gl_gen p ns g)) ns' =
     (if ns' = ns then gen_name p ns (calls g) (names_in_use g ns) # names_in_use g ns
      else names_in_use g ns')"
  by (simp_all add: gl_gen_def Let_def glcall_proj set_names_proj)

lemma gl_delete_proj:
  "current (gl_delete ns n g) = current g"
  "windows (gl_delete ns n g) = windows g"
  "cerr (gl_delete ns n g) = cerr g"
  "calls (gl_delete ns n g) = calls g @ [Delete ns n]"
  "names_in_use (gl_delete ns n g) ns' =
     (if ns' = ns then removeAll n (names_in_use g ns) else names_in_use g ns')"
  by (simp_all add: gl_delete_def glcall_proj set_names_proj)

lemma create_framebuffer_object:
  "fst (create_framebuffer p w h r g) =
     r\<lparr>fbo := fbo (fst (create_framebuffer p w h r g)),
       texture := texture (fst (create_framebuffer p w h r g)),
       rbo := rbo (fst (create_framebuffer p w h r g))\<rparr>"
  by (simp add: create_framebuffer_def Let_def split_beta)

lemma create_framebuffer_current:
  "current (snd (create_framebuffer p w h r g)) = current g"
  by (simp add: create_framebuffer_def Let_def split_beta glcall_proj gls_proj gl_gen_proj
        gl_delete_proj log_cerr_proj)

lemma create_framebuffer_calls:
  "calls (snd (create_framebuffer p w h r g)) =
     calls g
     @ (if fbo r \<noteq> 0
        then [Delete NS_Framebuffer (fbo r), Delete NS_Texture (texture r),
              Delete NS_Renderbuffer (rbo r)]
        else [])
     @ [Gen NS_Framebuffer (fbo (fst (create_framebuffer p w h r g))),
        BindFramebuffer (fbo (fst (create_framebuffer p w h r g))),
        Gen NS_Texture (texture (fst (create_framebuffer p w h r g))),
        BindTexture (texture (fst (create_framebuffer p w h r g))),
        TexImage2D w h,
        TexParameteriLinear ''GL_TEXTURE_MIN_FILTER'',
        TexParameteriLinear ''GL_TEXTURE_MAG_FILTER'',
        FramebufferTexture2D (texture (fst (create_framebuffer p w h r g))),
        Gen NS_Renderbuffer (rbo (fst (create_framebuffer p w h r g))),
        BindRenderbuffer (rbo (fst (create_framebuffer p w h r g))),
        RenderbufferStorage w h,
        FramebufferRenderbuffer (rbo (fst (create_framebuffer p w h r g))),
        BindFramebuffer 0]"
  by (simp add: create_framebuffer_def Let_def split_beta glcall_proj gls_proj gl_gen_proj
        gl_delete_proj log_cerr_proj)

lemma create_framebuffer_texture_names:
  "names_in_use (snd (create_framebuffer p w h r g)) NS_Texture =
     texture (fst (create_framebuffer p w h r g))
     # (if fbo r \<noteq> 0 then removeAll (texture r) (names_in_use g NS_Texture)
        else names_in_use g NS_Texture)"
  by (simp add: create_framebuffer_def Let_def split_beta glcall_proj gls_proj gl_gen_proj
        gl_delete_proj log_cerr_proj)

lemma create_framebuffer_texture:
  "\<exists>history. texture (fst (create_framebuffer p w h r g)) =
     gen_name p NS_Texture history
       (if fbo r \<noteq> 0 then removeAll (texture r) (names_in_use g NS_Texture)
        else names_in_use g NS_Texture)"
  by (auto simp add: create_framebuffer_def Let_def split_beta glcall_proj gls_proj gl_gen_proj
        gl_delete_proj log_cerr_proj)

lemma create_shader_program_proj:
  "current (snd (create_shader_program p vs fs g)) = current g"
  "ns \<noteq> NS_ShaderProgram \<Longrightarrow>
     names_in_use (snd (create_shader_program p vs fs g)) ns = names_in_use g ns"
  by (simp_all add: create_shader_program_def gl_create_shader_def gl_create_program_def
        check_shader_compile_def check_program_link_def Let_def split_beta
        glcall_proj gls_proj gl_delete_proj log_cerr_proj set_names_proj)

lemma fresh_context_names:
  "glfw_window p (windows g) \<noteq> 0 \<Longrightarrow>
   names_in_use
     (glfw_make_context_current (glfw_window p (windows g))
        (snd (glfw_create_window p w h g))) ns = []"
  by (simp add: glfw_create_window_def glfw_make_context_current_def Let_def
        glcall_def names_in_use_def)

lemma mesh_snapshot_gl_fields [simp]:
  "mesh_snapshot (r\<lparr>window := a\<rparr>) = mesh_snapshot r"
  "mesh_snapshot (r\<lparr>surface_shader := n\<rparr>) = mesh_snapshot r"
  "mesh_snapshot (r\<lparr>edge_shader := n\<rparr>) = mesh_snapshot r"
  "mesh_snapshot (r\<lparr>surface_vao := n\<rparr>) = mesh_snapshot r"
  "mesh_snapshot (r\<lparr>surface_vbo := n\<rparr>) = mesh_snapshot r"
  "mesh_snapshot (r\<lparr>surface_ebo := n\<rparr>) = mesh_snapshot r"
  "mesh_snapshot (r\<lparr>surface_color_vbo := n\<rparr>) = mesh_snapshot r"
  "mesh_snapshot (r\<lparr>edge_vao := n\<rparr>) = mesh_snapshot r"
  "mesh_snapshot (r\<lparr>edge_vbo := n\<rparr>) = mesh_snapshot r"
  "mesh_snapshot (r\<lparr>edge_ebo := n\<rparr>) = mesh_snapshot r"
  "mesh_snapshot (r\<lparr>fbo := n\<rparr>) = mesh_snapshot r"
  "mesh_snapshot (r\<lparr>texture := n\<rparr>) = mesh_snapshot r"
  "mesh_snapshot (r\<lparr>rbo := n\<rparr>) = mesh_snapshot r"
  "mesh_snapshot (r\<lparr>width := i\<rparr>) = mesh_snapshot r"
  "mesh_snapshot (r\<lparr>height := i\<rparr>) = mesh_snapshot r"
  by (simp_all add: mesh_snapshot_def)

lemma view_state_gl_fields [simp]:
  "view_state (r\<lparr>window := a\<rparr>) = view_state r"
  "view_state (r\<lparr>surface_shader := n\<rparr>) = view_state r"
  "view_state (r\<lparr>edge_shader := n\<rparr>) = view_state r"
  "view_state (r\<lparr>surface_vao := n\<rparr>) = view_state r"
  "view_state (r\<lparr>surface_vbo := n\<rparr>) = view_state r"
  "view_state (r\<lparr>surface_ebo := n\<rparr>) = view_state r"
  "view_state (r\<lparr>surface_color_vbo := n\<rparr>) = view_state r"
  "view_state (r\<lparr>edge_vao := n\<rparr>) = view_state r"
  "view_state (r\<lparr>edge_vbo := n\<rparr>) = view_state r"
  "view_state (r\<lparr>edge_ebo := n\<rparr>) = view_state r"
  "view_state (r\<lparr>fbo := n\<rparr>) = view_state r"
  "view_state (r\<lparr>texture := n\<rparr>) = view_state r"
  "view_state (r\<lparr>rbo := n\<rparr>) = view_state r"
  "view_state (r\<lparr>width := i\<rparr>) = view_state r"
  "view_state (r\<lparr>height := i\<rparr>) = view_state r"
  by (simp_all add: view_state_def)

lemma display_mode_gl_fields [simp]:
  "display_mode (r\<lparr>window := a\<rparr>) = display_mode r"
  "display_mode (r\<lparr>surface_shader := n\<rparr>) = display_mode r"
  "display_mode (r\<lparr>edge_shader := n\<rparr>) = display_mode r"
  "display_mode (r\<lparr>surface_vao := n\<rparr>) = display_mode r"
  "display_mode (r\<lparr>surface_vbo := n\<rparr>) = display_mode r"
  "display_mode (r\<lparr>surface_ebo := n\<rparr>) = display_mode r"
  "display_mode (r\<lparr>surface_color_vbo := n\<rparr>) = display_mode r"
  "display_mode (r\<lparr>edge_vao := n\<rparr>) = display_mode r"
  "display_mode (r\<lparr>edge_vbo := n\<rparr>) = display_mode r"
  "display_mode (r\<lparr>edge_ebo := n\<rparr>) = display_mode r"
  "display_mode (r\<lparr>fbo := n\<rparr>) = display_mode r"
  "display_mode (r\<lparr>texture := n\<rparr>) = display_mode r"
  "display_mode (r\<lparr>rbo := n\<rparr>) = display_mode r"
  "display_mode (r\<lparr>width := i\<rparr>) = display_mode r"
  "display_mode (r\<lparr>height := i\<rparr>) = display_mode r"
  by (simp_all add: display_mode_def)

lemma create_framebuffer_user_state:
  "mesh_snapshot (fst (create_framebuffer p w h r g)) = mesh_snapshot r"
  "view_state (fst (create_framebuffer p w h r g)) = view_state r"
  "display_mode (fst (create_framebuffer p w h r g)) = display_mode r"
  by (subst create_framebuffer_object, simp)+

lemma member_init_user_state:
  "mesh_snapshot (member_init raw w h) = ([], [], [], [], 0, 0, 0)"
  "view_state (member_init raw w h) = (0.3, 0.3, 500, Vec3 0 0 0)"
  "display_mode (member_init raw w h) = (REPRESENTATION_SURFACE, DATA_MODE_POINT)"
  by (simp_all add: member_init_def mesh_snapshot_def view_state_def display_mode_def)

lemma ctor_user_state:
  "mesh_snapshot (fst (FoamRenderer_ctor p raw w h g)) = ([], [], [], [], 0, 0, 0)"
  "view_state (fst (FoamRenderer_ctor p raw w h g)) = (0.3, 0.3, 500, Vec3 0 0 0)"
  "display_mode (fst (FoamRenderer_ctor p raw w h g)) = (REPRESENTATION_SURFACE, DATA_MODE_POINT)"
  by (simp_all add: FoamRenderer_ctor_def Let_def split_beta create_framebuffer_user_state
        member_init_user_state)

lemma glfw_create_window_fst: "fst (glfw_create_window p w h g) = glfw_window p (windows g)"
  by (simp add: glfw_create_window_def Let_def)

lemma ctor_success:
  assumes "glfw_init_ok p" and "glfw_window p (windows g) \<noteq> 0" and "glew_init_ok p"
  shows "names_in_use (snd (FoamRenderer_ctor p raw w h g)) NS_Texture
           = [texture (fst (FoamRenderer_ctor p raw w h g))]"
    and "\<exists>history. texture (fst (FoamRenderer_ctor p raw w h g)) = gen_name p NS_Texture history []"
    and "\<exists>history. fbo (fst (FoamRenderer_ctor p raw w h g)) = gen_name p NS_Framebuffer history []"
proof -
  show "names_in_use (snd (FoamRenderer_ctor p raw w h g)) NS_Texture
           = [texture (fst (FoamRenderer_ctor p raw w h g))]"
    using assms
    by (simp add: FoamRenderer_ctor_def Let_def split_beta create_framebuffer_texture_names
          gl_gen_proj gls_proj create_shader_program_proj fresh_context_names
          glfw_create_window_fst member_init_def)
  show "\<exists>history. texture (fst (FoamRenderer_ctor p raw w h g)) = gen_name p NS_Texture history []"
    using assms
    by (simp add: FoamRenderer_ctor_def create_framebuffer_def Let_def split_beta
          gl_gen_proj gls_proj glcall_proj gl_delete_proj create_shader_program_proj
          fresh_context_names glfw_create_window_fst member_init_def) blast
  show "\<exists>history. fbo (fst (FoamRenderer_ctor p raw w h g)) = gen_name p NS_Framebuffer history []"
    using assms
    by (simp add: FoamRenderer_ctor_def create_framebuffer_def Let_def split_beta
          gl_gen_proj gls_proj glcall_proj gl_delete_proj create_shader_program_proj
          fresh_context_names glfw_create_window_fst member_init_def) blast
qed

section \<open>Render: result, object and calls\<close>

lemma render_texture: "fst (render p r g) = texture r"
  by (simp add: render_def Let_def split: prod.splits)

lemma render_object: "fst (snd (render p r g)) = r"
  by (simp add: render_def Let_def split: prod.splits)

lemma render_empty:
  "vertex_count r = 0 \<or> index_count r = 0 \<Longrightarrow>
   render p r g =
     (texture r, r,
      g\<lparr>current := window r,
        calls := calls g @
          [GlfwMakeContextCurrent (window r), BindFramebuffer (fbo r),
           Viewport 0 0 (width r) (height r), ClearColor 0.117 0.117 0.117 1.0,
           ClearColorDepth, BindFramebuffer 0]\<rparr>)"
  by (auto simp: render_def Let_def glfw_make_context_current_def gls_def glcall_def)

lemma emitted_append: "calls g' = calls g @ cs \<Longrightarrow> emitted g g' = cs"
  by (simp add: emitted_def)

lemma glfw_make_context_current_proj:
  "current (glfw_make_context_current win g) = win"
  "names (glfw_make_context_current win g) = names g"
  "windows (glfw_make_context_current win g) = windows g"
  "cerr (glfw_make_context_current win g) = cerr g"
  "calls (glfw_make_context_current win g) = calls g @ [GlfwMakeContextCurrent win]"
  by (simp_all add: glfw_make_context_current_def glcall_def)

lemma render_calls_eq: "calls (snd (snd (render p r g))) = calls g @ render_calls p r"
  by (simp add: render_calls_def emitted_def render_def Let_def split_beta gl_initial_def
        render_surface_def render_edges_def gls_proj glcall_proj glfw_make_context_current_proj)



section \<open>Entry points on a live and on a null handle\<close>

lemma deref_Inr: "deref w a = Inr r \<longleftrightarrow> map_of (heap w) a = Some r"
  by (simp add: deref_def split: option.splits)

lemma deref_create:
  "foam_renderer_create p raw w wd ht = (h, w1) \<Longrightarrow>
   \<exists>a. h = Some a \<and> glst w1 = snd (FoamRenderer_ctor p (raw a) wd ht (glst w))
       \<and> map_of (heap w1) a = Some (fst (FoamRenderer_ctor p (raw a) wd ht (glst w)))"
  by (auto simp: foam_renderer_create_def Let_def update_conv' split: prod.splits)

text \<open>
  Claim C5. Every entry point that takes a handle returns at once on the null
  handle: the world is the one it was given, no fault is raised, and \<open>render\<close> and
  \<open>get_texture\<close> return \<open>0\<close>.
\<close>

theorem null_handle_noop:
  "foam_renderer_destroy w None = Inr w
   \<and> foam_renderer_update_mesh w None verts vc inds ic colors c_colors cc = Inr w
   \<and> foam_renderer_set_view w None rx ry z cx cy cz = Inr w
   \<and> foam_renderer_set_mode w None rep dm = Inr w
   \<and> foam_renderer_render p w None = Inr (0, w)
   \<and> foam_renderer_resize p w None wd ht = Inr w
   \<and> foam_renderer_get_texture w None = Inr (0, w)"
  by (simp add: foam_renderer_destroy_def foam_renderer_update_mesh_def
        foam_renderer_set_view_def foam_renderer_set_mode_def foam_renderer_render_def
        foam_renderer_resize_def foam_renderer_get_texture_def)

lemma foam_renderer_render_Some:
  "map_of (heap w) a = Some r \<Longrightarrow>
   foam_renderer_render p w (Some a) =
     Inr (texture r, w\<lparr>heap := AList.update a r (heap w), glst := snd (snd (render p r (glst w)))\<rparr>)"
  using render_texture [of p r "glst w"] render_object [of p r "glst w"]
  by (simp add: foam_renderer_render_def bind_f_def deref_def split_beta)

lemma foam_renderer_get_texture_Some:
  "map_of (heap w) a = Some r \<Longrightarrow> foam_renderer_get_texture w (Some a) = Inr (texture r, w)"
  by (simp add: foam_renderer_get_texture_def bind_f_def deref_def)

lemma map_of_update_same: "map_of al a = Some r \<Longrightarrow> map_of (AList.update a r al) = map_of al"
  by (simp add: update_conv' fun_upd_idem)

text \<open>
  Claim C6. \<open>render\<close> returns the renderer object as it received it, so the mesh
  data, the view parameters and the rendering mode are the ones before the call; at
  the C boundary no renderer on the heap changes.
\<close>

theorem render_leaves_state:
  "fst (snd (render p r g)) = r
   \<and> mesh_snapshot (fst (snd (render p r g))) = mesh_snapshot r
   \<and> view_state (fst (snd (render p r g))) = view_state r
   \<and> display_mode (fst (snd (render p r g))) = display_mode r
   \<and> (\<forall>t w'. foam_renderer_render p w h = Inr (t, w') \<longrightarrow> map_of (heap w') = map_of (heap w))"
proof -
  have "map_of (heap w') = map_of (heap w)" if "foam_renderer_render p w h = Inr (t, w')" for t w'
  proof (cases h)
    case None
    with that show ?thesis by (simp add: foam_renderer_render_def)
  next
    case (Some a)
    show ?thesis
    proof (cases "map_of (heap w) a")
      case None
      with that Some show ?thesis
        by (simp add: foam_renderer_render_def bind_f_def deref_def)
    next
      case (Some r)
      with that \<open>h = Some a\<close> show ?thesis
        by (auto simp: foam_renderer_render_Some map_of_update_same)
    qed
  qed
  then show ?thesis by (simp add: render_object)
qed

lemma example_created_live:
  "\<exists>a r. fst example_created = Some a \<and> map_of (heap (snd example_created)) a = Some r
      \<and> r = fst (FoamRenderer_ctor example_platform raw_zero 640 480 gl_initial)
      \<and> glst (snd example_created) = snd (FoamRenderer_ctor example_platform raw_zero 640 480 gl_initial)"
  using deref_create [of example_platform raw_storage_zero world_initial 640 480
                         "fst example_created" "snd example_created"]
  by (auto simp: example_created_def raw_storage_zero_def world_initial_def)

theorem render_leaves_state_witness:
  "\<not> isl (foam_renderer_render example_platform (snd example_created) (fst example_created))
   \<and> map_of (heap (snd (projr (foam_renderer_render example_platform (snd example_created)
                                  (fst example_created)))))
       = map_of (heap (snd example_created))"
proof -
  obtain a r where "fst example_created = Some a"
    and "map_of (heap (snd example_created)) a = Some r"
    using example_created_live by blast
  then have u: "foam_renderer_render example_platform (snd example_created) (fst example_created)
      = Inr (fst (projr (foam_renderer_render example_platform (snd example_created)
                           (fst example_created))),
             snd (projr (foam_renderer_render example_platform (snd example_created)
                           (fst example_created))))"
    by (simp add: foam_renderer_render_Some)
  with render_leaves_state [of example_platform r gl_initial "snd example_created"
         "fst example_created"]
  have "map_of (heap (snd (projr (foam_renderer_render example_platform (snd example_created)
                                  (fst example_created)))))
       = map_of (heap (snd example_created))"
    by blast
  moreover from u have "\<not> isl (foam_renderer_render example_platform (snd example_created)
      (fst example_created))"
    by (metis sum.disc(2))
  ultimately show ?thesis by simp
qed

text \<open>
  Claim C2. With no vertices or no indices \<open>render\<close> makes the context current,
  binds the target, sets the viewport, clears colour and depth, unbinds and returns
  the texture member: six calls, none of them a draw. A renderer that was just
  created has no vertices, so \<open>render\<close> on its handle takes this path and returns
  what \<open>get_texture\<close> returns, before and after.
\<close>

theorem render_empty_mesh:
  "(vertex_count r = 0 \<or> index_count r = 0 \<longrightarrow>
      fst (render p r g) = texture r
      \<and> emitted g (snd (snd (render p r g))) =
          [GlfwMakeContextCurrent (window r), BindFramebuffer (fbo r),
           Viewport 0 0 (width r) (height r), ClearColor 0.117 0.117 0.117 1.0,
           ClearColorDepth, BindFramebuffer 0]
      \<and> list_all (\<lambda>c. \<not> is_draw c) (emitted g (snd (snd (render p r g)))))
   \<and> (\<forall>h w1. foam_renderer_create p raw w wd ht = (h, w1) \<longrightarrow>
         (\<exists>a r1 w2. h = Some a \<and> map_of (heap w1) a = Some r1
            \<and> foam_renderer_render p w1 h = Inr (texture r1, w2)
            \<and> foam_renderer_get_texture w1 h = Inr (texture r1, w1)
            \<and> foam_renderer_get_texture w2 h = Inr (texture r1, w2)
            \<and> emitted (glst w1) (glst w2) =
                [GlfwMakeContextCurrent (window r1), BindFramebuffer (fbo r1),
                 Viewport 0 0 (width r1) (height r1), ClearColor 0.117 0.117 0.117 1.0,
                 ClearColorDepth, BindFramebuffer 0]))"
proof (intro conjI allI impI)
  assume e: "vertex_count r = 0 \<or> index_count r = 0"
  show "fst (render p r g) = texture r" by (rule render_texture)
  from e show c: "emitted g (snd (snd (render p r g))) =
          [GlfwMakeContextCurrent (window r), BindFramebuffer (fbo r),
           Viewport 0 0 (width r) (height r), ClearColor 0.117 0.117 0.117 1.0,
           ClearColorDepth, BindFramebuffer 0]"
    by (simp add: render_empty emitted_def)
  show "list_all (\<lambda>c. \<not> is_draw c) (emitted g (snd (snd (render p r g))))"
    by (simp add: c)
next
  fix h w1
  assume "foam_renderer_create p raw w wd ht = (h, w1)"
  then obtain a where h: "h = Some a"
    and g1: "glst w1 = snd (FoamRenderer_ctor p (raw a) wd ht (glst w))"
    and m: "map_of (heap w1) a = Some (fst (FoamRenderer_ctor p (raw a) wd ht (glst w)))"
    using deref_create by blast
  let ?r1 = "fst (FoamRenderer_ctor p (raw a) wd ht (glst w))"
  let ?w2 = "w1\<lparr>heap := AList.update a ?r1 (heap w1), glst := snd (snd (render p ?r1 (glst w1)))\<rparr>"
  have "mesh_snapshot ?r1 = ([], [], [], [], 0, 0, 0)" by (rule ctor_user_state)
  then have e: "vertex_count ?r1 = 0" by (simp add: mesh_snapshot_def)
  have "foam_renderer_render p w1 h = Inr (texture ?r1, ?w2)"
    using m h by (simp add: foam_renderer_render_Some)
  moreover have "foam_renderer_get_texture w1 h = Inr (texture ?r1, w1)"
    using m h by (simp add: foam_renderer_get_texture_Some)
  moreover have "foam_renderer_get_texture ?w2 h = Inr (texture ?r1, ?w2)"
    using m h by (simp add: foam_renderer_get_texture_Some update_conv')
  moreover have "emitted (glst w1) (glst ?w2) =
                [GlfwMakeContextCurrent (window ?r1), BindFramebuffer (fbo ?r1),
                 Viewport 0 0 (width ?r1) (height ?r1), ClearColor 0.117 0.117 0.117 1.0,
                 ClearColorDepth, BindFramebuffer 0]"
    using e by (simp add: render_empty emitted_def)
  ultimately show "\<exists>a r1 w2. h = Some a \<and> map_of (heap w1) a = Some r1
            \<and> foam_renderer_render p w1 h = Inr (texture r1, w2)
            \<and> foam_renderer_get_texture w1 h = Inr (texture r1, w1)
            \<and> foam_renderer_get_texture w2 h = Inr (texture r1, w2)
            \<and> emitted (glst w1) (glst w2) =
                [GlfwMakeContextCurrent (window r1), BindFramebuffer (fbo r1),
                 Viewport 0 0 (width r1) (height r1), ClearColor 0.117 0.117 0.117 1.0,
                 ClearColorDepth, BindFramebuffer 0]"
    using h m by blast
qed

theorem render_empty_mesh_witness:
  "vertex_count (member_init raw_zero 640 480) = 0
   \<and> fst (render example_platform (member_init raw_zero 640 480) gl_initial) = 0
   \<and> emitted gl_initial (snd (snd (render example_platform (member_init raw_zero 640 480) gl_initial)))
       = [GlfwMakeContextCurrent 0, BindFramebuffer 0, Viewport 0 0 640 480,
          ClearColor 0.117 0.117 0.117 1.0, ClearColorDepth, BindFramebuffer 0]
   \<and> \<not> isl (foam_renderer_render example_platform (snd example_created) (fst example_created))
   \<and> fst (projr (foam_renderer_render example_platform (snd example_created) (fst example_created)))
       = fst (projr (foam_renderer_get_texture (snd example_created) (fst example_created)))"
proof -
  have e: "vertex_count (member_init raw_zero 640 480) = 0"
    by (simp add: member_init_def)
  note T = render_empty_mesh [of "member_init raw_zero 640 480" example_platform gl_initial
             raw_storage_zero world_initial 640 480]
  from T e have "fst (render example_platform (member_init raw_zero 640 480) gl_initial)
        = texture (member_init raw_zero 640 480)"
    and "emitted gl_initial (snd (snd (render example_platform (member_init raw_zero 640 480) gl_initial)))
       = [GlfwMakeContextCurrent (window (member_init raw_zero 640 480)),
          BindFramebuffer (fbo (member_init raw_zero 640 480)),
          Viewport 0 0 (width (member_init raw_zero 640 480)) (height (member_init raw_zero 640 480)),
          ClearColor 0.117 0.117 0.117 1.0, ClearColorDepth, BindFramebuffer 0]"
    by blast+
  then have first: "fst (render example_platform (member_init raw_zero 640 480) gl_initial) = 0"
    "emitted gl_initial (snd (snd (render example_platform (member_init raw_zero 640 480) gl_initial)))
       = [GlfwMakeContextCurrent 0, BindFramebuffer 0, Viewport 0 0 640 480,
          ClearColor 0.117 0.117 0.117 1.0, ClearColorDepth, BindFramebuffer 0]"
    by (simp_all add: member_init_def raw_zero_def)
  have "foam_renderer_create example_platform raw_storage_zero world_initial 640 480
          = (fst example_created, snd example_created)"
    by (simp add: example_created_def)
  with T obtain r1 :: FoamRenderer and w2 where
    "foam_renderer_render example_platform (snd example_created) (fst example_created)
       = Inr (texture r1, w2)"
    "foam_renderer_get_texture (snd example_created) (fst example_created)
       = Inr (texture r1, snd example_created)"
    by blast
  with e first show ?thesis by simp
qed

section \<open>What a run of calls preserves\<close>

lemma object_at_update:
  "object_at (w\<lparr>heap := AList.update a r (heap w), glst := g\<rparr>) (Some a) = Some r"
  "object_at (w\<lparr>heap := AList.update a r (heap w)\<rparr>) (Some a) = Some r"
  by (simp_all add: object_at_def update_conv')

lemma resize_object:
  "fst (resize p wd ht r g) =
     r\<lparr>width := wd, height := ht,
       fbo := fbo (fst (resize p wd ht r g)),
       texture := texture (fst (resize p wd ht r g)),
       rbo := rbo (fst (resize p wd ht r g))\<rparr>"
  unfolding resize_def Let_def
  by (subst create_framebuffer_object) simp

lemma resize_user_state:
  "mesh_snapshot (fst (resize p wd ht r g)) = mesh_snapshot r"
  "view_state (fst (resize p wd ht r g)) = view_state r"
  "display_mode (fst (resize p wd ht r g)) = display_mode r"
  by (simp_all add: resize_def Let_def create_framebuffer_user_state)

lemma api_step_texture:
  assumes "api_step p h w c = Inr w'" and "\<not> is_resize c"
  shows "map_option texture (object_at w' h) = map_option texture (object_at w h)"
proof (cases h)
  case None
  with assms show ?thesis
    by (cases c)
       (auto simp: foam_renderer_update_mesh_def foam_renderer_set_view_def
          foam_renderer_set_mode_def foam_renderer_render_def foam_renderer_get_texture_def
          bind_f_def)
next
  case (Some a)
  show ?thesis
  proof (cases "map_of (heap w) a")
    case None
    with assms Some show ?thesis
      by (cases c)
         (auto simp: foam_renderer_update_mesh_def foam_renderer_set_view_def
            foam_renderer_set_mode_def foam_renderer_render_def foam_renderer_get_texture_def
            bind_f_def deref_def)
  next
    case r: (Some r)
    with assms Some show ?thesis
    proof (cases c)
      case (CallUpdateMesh verts vc inds ic colors c_colors cc)
      with assms Some r show ?thesis
        by (auto simp: foam_renderer_update_mesh_def bind_f_Inr deref_Inr update_mesh_data_Inr
              object_at_def update_conv')
    next
      case CallRender
      with assms Some r show ?thesis
        by (auto simp: foam_renderer_render_Some bind_f_def object_at_def update_conv')
    qed (auto simp: foam_renderer_set_view_def foam_renderer_set_mode_def Let_def
           foam_renderer_get_texture_Some bind_f_def deref_def object_at_def update_conv')
  qed
qed

lemma api_run_texture:
  "api_run p h w cs = Inr w' \<Longrightarrow> list_all (\<lambda>c. \<not> is_resize c) cs \<Longrightarrow>
   map_option texture (object_at w' h) = map_option texture (object_at w h)"
proof (induction cs arbitrary: w)
  case Nil
  then show ?case by simp
next
  case (Cons c cs)
  from Cons.prems(1) obtain w1 where s: "api_step p h w c = Inr w1" and r: "api_run p h w1 cs = Inr w'"
    by (auto simp: bind_f_Inr)
  from Cons.IH [OF r] Cons.prems(2) api_step_texture [OF s] show ?case by simp
qed

lemma foam_renderer_resize_Some:
  "map_of (heap w) a = Some r \<Longrightarrow>
   foam_renderer_resize p w (Some a) wd ht =
     Inr (w\<lparr>heap := AList.update a (fst (resize p wd ht r (glst w))) (heap w),
            glst := snd (resize p wd ht r (glst w))\<rparr>)"
  by (simp add: foam_renderer_resize_def bind_f_def deref_def split_beta)

lemma api_step_passive:
  assumes "\<not> is_setter c" and "object_at w h = Some r"
  shows "\<exists>w' r'. api_step p h w c = Inr w' \<and> object_at w' h = Some r'
           \<and> user_state r' = user_state r"
proof -
  from assms(2) obtain a where h: "h = Some a" and m: "map_of (heap w) a = Some r"
    by (auto simp: object_at_def split: option.splits)
  show ?thesis
  proof (cases c)
    case CallRender
    then show ?thesis using h m
      by (simp add: foam_renderer_render_Some bind_f_def object_at_update)
  next
    case (CallResize wd ht)
    then show ?thesis using h m
      by (simp add: foam_renderer_resize_Some object_at_update user_state_def resize_user_state)
  next
    case CallGetTexture
    then show ?thesis using h m assms(2)
      by (simp add: foam_renderer_get_texture_Some bind_f_def)
  qed (use assms(1) in simp_all)
qed

lemma api_run_passive:
  "list_all (\<lambda>c. \<not> is_setter c) cs \<Longrightarrow> object_at w h = Some r \<Longrightarrow>
   \<exists>w' r'. api_run p h w cs = Inr w' \<and> object_at w' h = Some r' \<and> user_state r' = user_state r"
proof (induction cs arbitrary: w r)
  case Nil
  then show ?case by simp
next
  case (Cons c cs)
  then obtain w1 r1 where s: "api_step p h w c = Inr w1" and o: "object_at w1 h = Some r1"
    and u: "user_state r1 = user_state r"
    using api_step_passive [of c w h r p] by auto
  from Cons.IH [OF _ o] Cons.prems(1) obtain w' r' where
    "api_run p h w1 cs = Inr w'" "object_at w' h = Some r'" "user_state r' = user_state r1"
    by auto
  with s u show ?case by (simp add: bind_f_def)
qed

text \<open>
  Claim C10. The constructor leaves an empty mesh (no data, the three counts
  \<open>0\<close>), rotations of \<open>0.3\<close>, a zoom of \<open>500\<close>, the origin as mesh centre, and the
  surface representation with per-point data, on each of its paths; and on the
  handle of a fresh renderer every run of \<open>render\<close>, \<open>resize\<close> and \<open>get_texture\<close>
  calls returns and leaves these values in place.
\<close>

theorem fresh_renderer_defaults:
  "mesh_snapshot (fst (FoamRenderer_ctor p raw wd ht g)) = ([], [], [], [], 0, 0, 0)
   \<and> view_state (fst (FoamRenderer_ctor p raw wd ht g)) = (0.3, 0.3, 500, Vec3 0 0 0)
   \<and> display_mode (fst (FoamRenderer_ctor p raw wd ht g))
        = (REPRESENTATION_SURFACE, DATA_MODE_POINT)
   \<and> (\<forall>h w1 cs. foam_renderer_create p storage w wd ht = (h, w1) \<longrightarrow>
         list_all (\<lambda>c. \<not> is_setter c) cs \<longrightarrow>
         (\<exists>w' r'. api_run p h w1 cs = Inr w' \<and> object_at w' h = Some r'
            \<and> mesh_snapshot r' = ([], [], [], [], 0, 0, 0)
            \<and> view_state r' = (0.3, 0.3, 500, Vec3 0 0 0)
            \<and> display_mode r' = (REPRESENTATION_SURFACE, DATA_MODE_POINT)))"
proof (intro conjI allI impI)
  fix h w1 cs
  assume c: "foam_renderer_create p storage w wd ht = (h, w1)"
    and l: "list_all (\<lambda>c. \<not> is_setter c) cs"
  from deref_create [OF c] obtain a where "h = Some a"
    and "map_of (heap w1) a = Some (fst (FoamRenderer_ctor p (storage a) wd ht (glst w)))"
    by blast
  then have "object_at w1 h = Some (fst (FoamRenderer_ctor p (storage a) wd ht (glst w)))"
    by (simp add: object_at_def)
  from api_run_passive [OF l this] obtain w' r' where
    "api_run p h w1 cs = Inr w'" "object_at w' h = Some r'"
    "user_state r' = user_state (fst (FoamRenderer_ctor p (storage a) wd ht (glst w)))"
    by blast
  then show "\<exists>w' r'. api_run p h w1 cs = Inr w' \<and> object_at w' h = Some r'
            \<and> mesh_snapshot r' = ([], [], [], [], 0, 0, 0)
            \<and> view_state r' = (0.3, 0.3, 500, Vec3 0 0 0)
            \<and> display_mode r' = (REPRESENTATION_SURFACE, DATA_MODE_POINT)"
    by (auto simp: user_state_def ctor_user_state)
qed (simp_all add: ctor_user_state)

theorem fresh_renderer_defaults_witness:
  "list_all (\<lambda>c. \<not> is_setter c) passive_calls
   \<and> \<not> isl (api_run example_platform (fst example_created) (snd example_created) passive_calls)
   \<and> map_option view_state
        (object_at (projr (api_run example_platform (fst example_created) (snd example_created)
                             passive_calls)) (fst example_created))
       = Some (0.3, 0.3, 500, Vec3 0 0 0)
   \<and> map_option display_mode
        (object_at (projr (api_run example_platform (fst example_created) (snd example_created)
                             passive_calls)) (fst example_created))
       = Some (1, 1)
   \<and> map_option mesh_snapshot
        (object_at (projr (api_run example_platform (fst example_created) (snd example_created)
                             passive_calls)) (fst example_created))
       = Some ([], [], [], [], 0, 0, 0)"
proof -
  have l: "list_all (\<lambda>c. \<not> is_setter c) passive_calls"
    by (simp add: passive_calls_def)
  have c: "foam_renderer_create example_platform raw_storage_zero world_initial 640 480
          = (fst example_created, snd example_created)"
    by (simp add: example_created_def)
  from fresh_renderer_defaults [of example_platform raw_zero 640 480 gl_initial
         raw_storage_zero world_initial] c l
  obtain w' r' where
    "api_run example_platform (fst example_created) (snd example_created) passive_calls = Inr w'"
    "object_at w' (fst example_created) = Some r'"
    "mesh_snapshot r' = ([], [], [], [], 0, 0, 0)"
    "view_state r' = (0.3, 0.3, 500, Vec3 0 0 0)"
    "display_mode r' = (REPRESENTATION_SURFACE, DATA_MODE_POINT)"
    by blast
  with l show ?thesis
    by (simp add: REPRESENTATION_SURFACE_def DATA_MODE_POINT_def)
qed

section \<open>Texture identifiers\<close>

lemma foam_renderer_render_texture:
  assumes "foam_renderer_render p w h = Inr (t, w1)"
  shows "foam_renderer_get_texture w h = Inr (t, w)"
    and "map_option texture (object_at w1 h) = map_option texture (object_at w h)"
proof -
  have "foam_renderer_get_texture w h = Inr (t, w)
      \<and> map_option texture (object_at w1 h) = map_option texture (object_at w h)"
  proof (cases h)
    case None
    with assms show ?thesis
      by (auto simp: foam_renderer_render_def foam_renderer_get_texture_def)
  next
    case (Some a)
    show ?thesis
    proof (cases "map_of (heap w) a")
      case None
      with assms Some show ?thesis
        by (simp add: foam_renderer_render_def bind_f_def deref_def)
    next
      case r: (Some r)
      with assms Some show ?thesis
        by (auto simp: foam_renderer_render_Some foam_renderer_get_texture_Some
              object_at_def update_conv')
    qed
  qed
  then show "foam_renderer_get_texture w h = Inr (t, w)"
    and "map_option texture (object_at w1 h) = map_option texture (object_at w h)"
    by simp_all
qed

lemma foam_renderer_get_texture_object:
  "foam_renderer_get_texture w h = Inr (t, w') \<longleftrightarrow>
   w' = w \<and> (case h of None \<Rightarrow> t = 0 | Some a \<Rightarrow> map_option texture (object_at w h) = Some t)"
  by (auto simp: foam_renderer_get_texture_def bind_f_def deref_def object_at_def
        split: option.splits)

lemma resize_calls:
  "fbo r \<noteq> 0 \<Longrightarrow>
   emitted g (snd (resize p wd ht r g)) =
     [Delete NS_Framebuffer (fbo r), Delete NS_Texture (texture r),
      Delete NS_Renderbuffer (rbo r),
      Gen NS_Framebuffer (fbo (fst (resize p wd ht r g))),
      BindFramebuffer (fbo (fst (resize p wd ht r g))),
      Gen NS_Texture (texture (fst (resize p wd ht r g))),
      BindTexture (texture (fst (resize p wd ht r g))),
      TexImage2D wd ht,
      TexParameteriLinear ''GL_TEXTURE_MIN_FILTER'',
      TexParameteriLinear ''GL_TEXTURE_MAG_FILTER'',
      FramebufferTexture2D (texture (fst (resize p wd ht r g))),
      Gen NS_Renderbuffer (rbo (fst (resize p wd ht r g))),
      BindRenderbuffer (rbo (fst (resize p wd ht r g))),
      RenderbufferStorage wd ht,
      FramebufferRenderbuffer (rbo (fst (resize p wd ht r g))),
      BindFramebuffer 0]"
  by (simp add: resize_def Let_def emitted_def create_framebuffer_calls)

lemma resize_texture_names:
  "fbo r \<noteq> 0 \<Longrightarrow>
   names_in_use (snd (resize p wd ht r g)) NS_Texture =
     texture (fst (resize p wd ht r g)) # removeAll (texture r) (names_in_use g NS_Texture)"
  by (simp add: resize_def Let_def create_framebuffer_texture_names)

lemma resize_texture:
  "fbo r \<noteq> 0 \<Longrightarrow>
   \<exists>history. texture (fst (resize p wd ht r g)) =
     gen_name p NS_Texture history (removeAll (texture r) (names_in_use g NS_Texture))"
  using create_framebuffer_texture [of p wd ht "r\<lparr>width := wd, height := ht\<rparr>" g]
  by (simp add: resize_def Let_def)

text \<open>The driver of the example keeps the contract of \<^verbatim>\<open>glGen*\<close>: the name it hands
  out is not \<open>0\<close> and not in use.\<close>

lemma find_free_cases:
  "find_free k n used \<notin> set used
   \<and> (\<exists>i\<le>k. find_free k n used = n + of_nat i)
   \<or> (\<forall>i<k. n + of_nat i \<in> set used) \<and> find_free k n used = n + of_nat k"
proof (induction k arbitrary: n)
  case 0
  then show ?case by simp
next
  case (Suc k)
  show ?case
  proof (cases "n \<in> set used")
    case False
    then have "find_free (Suc k) n used \<notin> set used \<and> find_free (Suc k) n used = n + of_nat 0"
      by simp
    then show ?thesis by blast
  next
    case True
    from Suc.IH [of "n + 1"] consider
      (free) i where "find_free k (n + 1) used \<notin> set used" "i \<le> k"
        "find_free k (n + 1) used = n + 1 + of_nat i"
      | (full) "\<forall>i<k. n + 1 + of_nat i \<in> set used" "find_free k (n + 1) used = n + 1 + of_nat k"
      by blast
    then show ?thesis
    proof cases
      case free
      then have "find_free (Suc k) n used \<notin> set used \<and> Suc i \<le> Suc k
          \<and> find_free (Suc k) n used = n + of_nat (Suc i)"
        using True by (simp add: add.assoc)
      then show ?thesis by blast
    next
      case full
      have "\<forall>i<Suc k. n + of_nat i \<in> set used"
      proof (intro allI impI)
        fix i assume "i < Suc k"
        show "n + of_nat i \<in> set used"
        proof (cases i)
          case 0
          then show ?thesis using True by simp
        next
          case (Suc j)
          with \<open>i < Suc k\<close> full(1) have "n + 1 + of_nat j \<in> set used" by simp
          then show ?thesis using Suc by (simp add: add.assoc)
        qed
      qed
      moreover have "find_free (Suc k) n used = n + of_nat (Suc k)"
        using True full(2) by (simp add: add.assoc)
      ultimately show ?thesis by blast
    qed
  qed
qed

lemma of_nat_inj_32:
  "i < 2 ^ 32 \<Longrightarrow> j < 2 ^ 32 \<Longrightarrow> (of_nat i :: 32 word) = of_nat j \<Longrightarrow> i = j"
  by (simp add: word_of_nat_eq_iff take_bit_nat_eq_self)

lemma lowest_free_unused:
  assumes "length used < 2 ^ 32 - 1"
  shows "lowest_free used \<notin> set used" and "lowest_free used \<noteq> 0"
proof -
  let ?k = "length used"
  let ?c = "\<lambda>i. (1 :: 32 word) + of_nat i"
  have inj: "inj_on ?c {..?k}"
  proof (rule inj_onI)
    fix i j assume "i \<in> {..?k}" "j \<in> {..?k}" "?c i = ?c j"
    then show "i = j" using assms of_nat_inj_32 [of i j] by simp
  qed
  have nz: "?c i \<noteq> 0" if "i \<le> ?k" for i
  proof
    assume "?c i = 0"
    then have "(of_nat (Suc i) :: 32 word) = of_nat 0" by (simp add: add.commute)
    then show False using of_nat_inj_32 [of "Suc i" 0] that assms by simp
  qed
  from find_free_cases [of ?k 1 used] consider
    (free) i where "lowest_free used \<notin> set used" "i \<le> ?k" "lowest_free used = ?c i"
    | (full) "\<forall>i<?k. ?c i \<in> set used" "lowest_free used = ?c ?k"
    by (auto simp: lowest_free_def)
  then have "lowest_free used \<notin> set used \<and> lowest_free used \<noteq> 0"
  proof cases
    case free
    then show ?thesis using nz by simp
  next
    case full
    have sub: "?c ` {..<?k} \<subseteq> set used" using full(1) by auto
    have "inj_on ?c {..<?k}"
      by (rule inj_on_subset [OF inj]) auto
    then have "card (?c ` {..<?k}) = ?k"
      by (simp add: card_image)
    moreover have "card (set used) \<le> ?k" by (rule card_length)
    ultimately have "?c ` {..<?k} = set used"
      using sub by (simp add: card_seteq)
    moreover have "?c ?k \<notin> ?c ` {..<?k}"
    proof
      assume "?c ?k \<in> ?c ` {..<?k}"
      then obtain i where "i < ?k" "?c ?k = ?c i" by auto
      with inj_onD [OF inj, of ?k i] show False by simp
    qed
    ultimately show ?thesis using full(2) nz [of ?k] by simp
  qed
  then show "lowest_free used \<notin> set used" and "lowest_free used \<noteq> 0" by simp_all
qed

lemma example_gen_name: "gen_name example_platform ns history used = lowest_free used"
  by (simp add: example_platform_def)

lemma lowest_free_Nil: "lowest_free [] = 1"
  by (simp add: lowest_free_def)

lemma example_ctor:
  "texture (fst (FoamRenderer_ctor example_platform raw_zero 640 480 gl_initial)) = 1"
  "fbo (fst (FoamRenderer_ctor example_platform raw_zero 640 480 gl_initial)) = 1"
  "names_in_use (snd (FoamRenderer_ctor example_platform raw_zero 640 480 gl_initial)) NS_Texture = [1]"
proof -
  have ok: "glfw_init_ok example_platform"
    "glfw_window example_platform (windows gl_initial) \<noteq> 0" "glew_init_ok example_platform"
    by (simp_all add: example_platform_def gl_initial_def next_above_def)
  from ctor_success(2) [OF ok]
  show t: "texture (fst (FoamRenderer_ctor example_platform raw_zero 640 480 gl_initial)) = 1"
    by (auto simp: example_gen_name lowest_free_Nil)
  from ctor_success(3) [OF ok]
  show "fbo (fst (FoamRenderer_ctor example_platform raw_zero 640 480 gl_initial)) = 1"
    by (auto simp: example_gen_name lowest_free_Nil)
  from ctor_success(1) [OF ok, of raw_zero 640 480] t
  show "names_in_use (snd (FoamRenderer_ctor example_platform raw_zero 640 480 gl_initial))
          NS_Texture = [1]"
    by simp
qed

text \<open>
  On the example platform a fresh renderer has the texture \<open>1\<close>; a \<open>resize\<close> frees
  the name and the driver hands it out again, so \<open>get_texture\<close> returns \<open>1\<close> before
  and after.
\<close>

theorem resize_reuses_texture_name:
  "\<not> isl (foam_renderer_get_texture (snd example_created) (fst example_created))
   \<and> fst (projr (foam_renderer_get_texture (snd example_created) (fst example_created))) = 1
   \<and> \<not> isl (foam_renderer_resize example_platform (snd example_created) (fst example_created)
               800 600)
   \<and> \<not> isl (foam_renderer_get_texture
               (projr (foam_renderer_resize example_platform (snd example_created)
                         (fst example_created) 800 600))
               (fst example_created))
   \<and> fst (projr (foam_renderer_get_texture
               (projr (foam_renderer_resize example_platform (snd example_created)
                         (fst example_created) 800 600))
               (fst example_created))) = 1"
proof -
  let ?r = "fst (FoamRenderer_ctor example_platform raw_zero 640 480 gl_initial)"
  let ?g = "snd (FoamRenderer_ctor example_platform raw_zero 640 480 gl_initial)"
  obtain a where h: "fst example_created = Some a"
    and m: "map_of (heap (snd example_created)) a = Some ?r"
    and g: "glst (snd example_created) = ?g"
    using example_created_live by blast
  have f: "fbo ?r \<noteq> 0" by (simp add: example_ctor)
  from resize_texture [OF f, of example_platform 800 600 ?g]
  have t': "texture (fst (resize example_platform 800 600 ?r ?g)) = 1"
    by (auto simp: example_gen_name example_ctor lowest_free_Nil)
  have "foam_renderer_get_texture (snd example_created) (fst example_created)
          = Inr (1, snd example_created)"
    using h m by (simp add: foam_renderer_get_texture_Some example_ctor)
  moreover have "foam_renderer_resize example_platform (snd example_created) (fst example_created)
      800 600
    = Inr ((snd example_created)
             \<lparr>heap := AList.update a (fst (resize example_platform 800 600 ?r ?g))
                        (heap (snd example_created)),
              glst := snd (resize example_platform 800 600 ?r ?g)\<rparr>)"
    using h m g by (simp add: foam_renderer_resize_Some)
  ultimately show ?thesis
    using h t' by (simp add: foam_renderer_get_texture_Some update_conv')
qed

lemma api_step_live:
  assumes "c = CallSetView rx ry z cx cy cz \<or> c = CallSetMode rep dm \<or> \<not> is_setter c"
    and "object_at w h = Some r"
  shows "\<exists>w' r'. api_step p h w c = Inr w' \<and> object_at w' h = Some r'"
proof -
  from assms(2) obtain a where h: "h = Some a" and m: "map_of (heap w) a = Some r"
    by (auto simp: object_at_def split: option.splits)
  from assms(1) consider "c = CallSetView rx ry z cx cy cz" | "c = CallSetMode rep dm"
    | "\<not> is_setter c" by blast
  then show ?thesis
  proof cases
    case 1
    then show ?thesis using h m
      by (simp add: foam_renderer_set_view_def bind_f_def deref_def Let_def object_at_update)
  next
    case 2
    then show ?thesis using h m
      by (simp add: foam_renderer_set_mode_def bind_f_def deref_def Let_def object_at_update)
  next
    case 3
    from api_step_passive [OF this assms(2)] show ?thesis by blast
  qed
qed

text \<open>
  Claim C4, as amended. Between two \<open>render\<close> calls on a handle with no \<open>resize\<close>
  between them (any other calls may come between) the identifier returned is the
  same, and \<open>get_texture\<close> returns it too. A \<open>resize\<close> of a renderer whose \<open>fbo\<close> is
  not \<open>0\<close> deletes the old framebuffer, texture and renderbuffer, generates new ones
  and gives the new texture storage of the new size; the new identifier is the one
  the driver hands out with the old one no longer in use, so it may be the old
  number again, as the counterexample before shows for a driver that hands out the
  lowest free name.
\<close>

theorem texture_identifier_stability:
  "(\<forall>t1 w1 cs w2 t2 w3.
      foam_renderer_render p w h = Inr (t1, w1) \<longrightarrow>
      list_all (\<lambda>c. \<not> is_resize c) cs \<longrightarrow>
      api_run p h w1 cs = Inr w2 \<longrightarrow>
      foam_renderer_render p w2 h = Inr (t2, w3) \<longrightarrow>
      t2 = t1 \<and> foam_renderer_get_texture w2 h = Inr (t1, w2))
   \<and> (fbo r \<noteq> 0 \<longrightarrow>
        emitted g (snd (resize p wd ht r g)) =
          [Delete NS_Framebuffer (fbo r), Delete NS_Texture (texture r),
           Delete NS_Renderbuffer (rbo r),
           Gen NS_Framebuffer (fbo (fst (resize p wd ht r g))),
           BindFramebuffer (fbo (fst (resize p wd ht r g))),
           Gen NS_Texture (texture (fst (resize p wd ht r g))),
           BindTexture (texture (fst (resize p wd ht r g))),
           TexImage2D wd ht,
           TexParameteriLinear ''GL_TEXTURE_MIN_FILTER'',
           TexParameteriLinear ''GL_TEXTURE_MAG_FILTER'',
           FramebufferTexture2D (texture (fst (resize p wd ht r g))),
           Gen NS_Renderbuffer (rbo (fst (resize p wd ht r g))),
           BindRenderbuffer (rbo (fst (resize p wd ht r g))),
           RenderbufferStorage wd ht,
           FramebufferRenderbuffer (rbo (fst (resize p wd ht r g))),
           BindFramebuffer 0]
        \<and> names_in_use (snd (resize p wd ht r g)) NS_Texture =
            texture (fst (resize p wd ht r g)) # removeAll (texture r) (names_in_use g NS_Texture)
        \<and> (\<exists>history. texture (fst (resize p wd ht r g)) =
              gen_name p NS_Texture history (removeAll (texture r) (names_in_use g NS_Texture))))"
proof (intro conjI allI impI)
  fix t1 w1 cs w2 t2 w3
  assume r1: "foam_renderer_render p w h = Inr (t1, w1)"
    and l: "list_all (\<lambda>c. \<not> is_resize c) cs"
    and run: "api_run p h w1 cs = Inr w2"
    and r2: "foam_renderer_render p w2 h = Inr (t2, w3)"
  from foam_renderer_render_texture [OF r1]
  have a: "foam_renderer_get_texture w h = Inr (t1, w)"
    and b: "map_option texture (object_at w1 h) = map_option texture (object_at w h)"
    by simp_all
  from api_run_texture [OF run l]
  have c: "map_option texture (object_at w2 h) = map_option texture (object_at w1 h)" .
  from foam_renderer_render_texture(1) [OF r2]
  have d: "foam_renderer_get_texture w2 h = Inr (t2, w2)" .
  from a b c d show "t2 = t1"
    by (cases h) (auto simp: foam_renderer_get_texture_object)
  with d show "foam_renderer_get_texture w2 h = Inr (t1, w2)" by simp
qed (simp_all add: resize_calls resize_texture_names resize_texture)

theorem texture_identifier_stability_witness:
  "list_all (\<lambda>c. \<not> is_resize c) view_calls
   \<and> \<not> isl (foam_renderer_render example_platform (snd example_created) (fst example_created))
   \<and> \<not> isl (api_run example_platform (fst example_created)
               (snd (projr (foam_renderer_render example_platform (snd example_created)
                              (fst example_created)))) view_calls)
   \<and> foam_renderer_render example_platform
        (projr (api_run example_platform (fst example_created)
                  (snd (projr (foam_renderer_render example_platform (snd example_created)
                                 (fst example_created)))) view_calls))
        (fst example_created)
       = Inr (fst (projr (foam_renderer_render example_platform (snd example_created)
                            (fst example_created))),
              snd (projr (foam_renderer_render example_platform
                 (projr (api_run example_platform (fst example_created)
                    (snd (projr (foam_renderer_render example_platform (snd example_created)
                                   (fst example_created)))) view_calls))
                 (fst example_created))))
   \<and> fbo bound_renderer = 1
   \<and> names_in_use (snd (resize example_platform 800 600 bound_renderer gl_initial)) NS_Texture
       = [texture (fst (resize example_platform 800 600 bound_renderer gl_initial))]"
proof -
  let ?h = "fst example_created" and ?w = "snd example_created"
  note T = texture_identifier_stability
             [of example_platform ?w ?h bound_renderer gl_initial 800 600]
  have l: "list_all (\<lambda>c. \<not> is_resize c) view_calls"
    by (simp add: view_calls_def)
  obtain a r where h: "?h = Some a" and m: "map_of (heap ?w) a = Some r"
    using example_created_live by blast
  from m h obtain t1 w1 where r1: "foam_renderer_render example_platform ?w ?h = Inr (t1, w1)"
    and o1: "object_at w1 ?h = Some r"
    by (simp add: foam_renderer_render_Some object_at_update)
  have "\<exists>w2 r2. api_run example_platform ?h w1 view_calls = Inr w2 \<and> object_at w2 ?h = Some r2"
  proof -
    from api_step_live [of CallGetTexture 0 0 0 0 0 0 0 0 w1 ?h r example_platform] o1
    obtain wa ra where 1: "api_step example_platform ?h w1 CallGetTexture = Inr wa"
      and oa: "object_at wa ?h = Some ra" by auto
    from api_step_live [of "CallSetView 0 0 100 0 0 0" 0 0 100 0 0 0 0 0 wa ?h ra example_platform] oa
    obtain wb rb where 2: "api_step example_platform ?h wa (CallSetView 0 0 100 0 0 0) = Inr wb"
      and ob: "object_at wb ?h = Some rb" by auto
    from api_step_live [of "CallSetMode 2 1" 0 0 0 0 0 0 2 1 wb ?h rb example_platform] ob
    obtain wc rc where 3: "api_step example_platform ?h wb (CallSetMode 2 1) = Inr wc"
      and oc: "object_at wc ?h = Some rc" by auto
    from api_step_live [of CallRender 0 0 0 0 0 0 0 0 wc ?h rc example_platform] oc
    obtain wd rd where 4: "api_step example_platform ?h wc CallRender = Inr wd"
      and od: "object_at wd ?h = Some rd" by auto
    from 1 2 3 4 od show ?thesis
      by (simp add: view_calls_def bind_f_def del: api_step.simps)
  qed
  then obtain w2 r2 where run: "api_run example_platform ?h w1 view_calls = Inr w2"
    and o2: "object_at w2 ?h = Some r2" by blast
  from o2 h obtain t2 w3 where r2: "foam_renderer_render example_platform w2 ?h = Inr (t2, w3)"
    by (simp add: foam_renderer_render_Some object_at_def)
  from T r1 l run r2 have "t2 = t1" by blast
  moreover have f: "fbo bound_renderer = 1" by (simp add: bound_renderer_def)
  moreover from T f have "names_in_use (snd (resize example_platform 800 600 bound_renderer gl_initial))
        NS_Texture
      = texture (fst (resize example_platform 800 600 bound_renderer gl_initial))
        # removeAll (texture bound_renderer) (names_in_use gl_initial NS_Texture)"
    by simp
  ultimately show ?thesis
    using l r1 run r2 by (simp add: names_in_use_def gl_initial_def)
qed

section \<open>The matrices of a frame\<close>

lemma tan_pi_8_pos: "0 < tan (pi / 8)"
  by (rule tan_gt_zero) simp_all

lemma radians_45: "glm_radians 45 / 2 = pi / 8"
  by (simp add: glm_radians_def)

lemma model_matrix_action:
  "mat4_apply (fst (setup_matrices r)) (point4 v) =
     point4 (translate_by (vec3_neg (mesh_center r))
               (rotate_about_y (rotation_y r) (rotate_about_x (rotation_x r) v)))"
  by (simp add: setup_matrices_def Let_def mat4_apply_def point4_def translate_by_def
        rotate_about_y_def rotate_about_x_def vec3_neg_def glm_rotate_def glm_translate_def
        glm_normalize_def vec3_scale_def vec4_add_def vec4_scale_def mat4_identity_def
        algebra_simps)

lemma view_matrix_action:
  "mat4_apply (fst (snd (setup_matrices r))) (point4 v) =
     point4 (translate_by (Vec3 0 0 (- zoom r)) v)"
  by (simp add: setup_matrices_def Let_def mat4_apply_def point4_def translate_by_def
        glm_translate_def vec4_add_def vec4_scale_def mat4_identity_def)

lemma projection_matrix_eq:
  "width r \<noteq> 0 \<Longrightarrow> height r \<noteq> 0 \<Longrightarrow>
   snd (snd (setup_matrices r)) =
     Some (perspective_matrix (pi / 4) (real_of_int (width r) / real_of_int (height r)) 0.1 10000)"
  using tan_pi_8_pos
  by (simp add: setup_matrices_def Let_def float_div_def glm_perspective_def radians_45
        perspective_matrix_def)

lemma projection_matrix_None:
  "width r = 0 \<or> height r = 0 \<Longrightarrow> snd (snd (setup_matrices r)) = None"
  by (auto simp: setup_matrices_def Let_def float_div_def glm_perspective_def)

lemma render_matrix_uploads:
  "vertex_count r \<noteq> 0 \<Longrightarrow> index_count r \<noteq> 0 \<Longrightarrow>
   concat (map matrix_upload (emitted g (snd (snd (render p r g))))) =
     (if representation r = REPRESENTATION_SURFACE
         \<or> representation r = REPRESENTATION_SURFACE_WITH_EDGES
      then [(uniform_location p (surface_shader r) ''model'', Some (fst (setup_matrices r))),
            (uniform_location p (surface_shader r) ''view'', Some (fst (snd (setup_matrices r)))),
            (uniform_location p (surface_shader r) ''projection'', snd (snd (setup_matrices r)))]
      else [])
     @ (if representation r = REPRESENTATION_WIREFRAME
           \<or> representation r = REPRESENTATION_SURFACE_WITH_EDGES
        then [(uniform_location p (edge_shader r) ''model'', Some (fst (setup_matrices r))),
              (uniform_location p (edge_shader r) ''view'', Some (fst (snd (setup_matrices r)))),
              (uniform_location p (edge_shader r) ''projection'', snd (snd (setup_matrices r)))]
        else [])"
  by (simp add: emitted_def render_def Let_def split_beta render_surface_def render_edges_def
        gls_proj glcall_proj glfw_make_context_current_proj)

lemma triangle_renderer_eq:
  "triangle_renderer =
     (member_init raw_zero 640 480)
       \<lparr>vertex_count := 3, index_count := 3, cell_count := 0,
        vertices := triangle_vertices, indices := triangle_indices,
        vertex_colors := concat (replicate 3 [0.5, 0.7, 1, 1]), cell_colors := []\<rparr>"
proof -
  have "update_mesh_args_valid (Some triangle_vertices) 3 (Some triangle_indices) 3 None None 0"
    by (simp add: update_mesh_args_valid_def array_has_def triangle_vertices_def
          triangle_indices_def INT32_MAX_def)
  then obtain r' g' where u: "update_mesh_data (member_init raw_zero 640 480) gl_initial
        (Some triangle_vertices) 3 (Some triangle_indices) 3 None None 0 = Inr (r', g')"
    using update_mesh_data_returns by blast
  then have "r' = (member_init raw_zero 640 480)
       \<lparr>vertex_count := 3, index_count := 3, cell_count := 0,
        vertices := triangle_vertices, indices := triangle_indices,
        vertex_colors := concat (replicate 3 [0.5, 0.7, 1, 1]), cell_colors := []\<rparr>"
    by (simp add: update_mesh_data_Inr array_take_def stored_vertex_colors_def
          triangle_vertices_def triangle_indices_def member_init_def)
  with u show ?thesis by (simp add: triangle_renderer_def)
qed

lemma triangle_renderer_fields:
  "vertex_count triangle_renderer = 3" "index_count triangle_renderer = 3"
  "width triangle_renderer = 640" "height triangle_renderer = 480"
  "representation triangle_renderer = REPRESENTATION_SURFACE"
  "rotation_x triangle_renderer = 0.3" "rotation_y triangle_renderer = 0.3"
  "zoom triangle_renderer = 500" "mesh_center triangle_renderer = Vec3 0 0 0"
  "surface_shader triangle_renderer = 0"
  by (simp_all add: triangle_renderer_eq member_init_def raw_zero_def)

text \<open>
  Claim C3. The model matrix of a frame takes a point to its rotation about X by
  \<open>rotation_x\<close>, then about Y by \<open>rotation_y\<close>, then its translation by
  \<open>- mesh_center\<close>; the view matrix translates by \<open>(0, 0, - zoom)\<close>; the projection
  matrix is the perspective matrix for a vertical field of view of \<open>45\<close> degrees,
  the aspect ratio \<open>width / height\<close>, near plane \<open>0.1\<close> and far plane \<open>10000\<close>
  (for a width and a height that are not \<open>0\<close>). For a mesh that is not empty these
  are the matrices \<open>render\<close> uploads, to the surface program, the edge program or
  both, as the representation says. Numbers are real numbers here, not rounded.
\<close>

theorem render_matrices:
  "mat4_apply (fst (setup_matrices r)) (point4 v) =
     point4 (translate_by (vec3_neg (mesh_center r))
               (rotate_about_y (rotation_y r) (rotate_about_x (rotation_x r) v)))
   \<and> mat4_apply (fst (snd (setup_matrices r))) (point4 v) =
       point4 (translate_by (Vec3 0 0 (- zoom r)) v)
   \<and> (width r \<noteq> 0 \<and> height r \<noteq> 0 \<longrightarrow>
        snd (snd (setup_matrices r)) =
          Some (perspective_matrix (45 * pi / 180)
                  (real_of_int (width r) / real_of_int (height r)) 0.1 10000))
   \<and> (vertex_count r \<noteq> 0 \<and> index_count r \<noteq> 0 \<longrightarrow>
        concat (map matrix_upload (emitted g (snd (snd (render p r g))))) =
          (if representation r = REPRESENTATION_SURFACE
              \<or> representation r = REPRESENTATION_SURFACE_WITH_EDGES
           then [(uniform_location p (surface_shader r) ''model'', Some (fst (setup_matrices r))),
                 (uniform_location p (surface_shader r) ''view'',
                    Some (fst (snd (setup_matrices r)))),
                 (uniform_location p (surface_shader r) ''projection'',
                    snd (snd (setup_matrices r)))]
           else [])
          @ (if representation r = REPRESENTATION_WIREFRAME
                \<or> representation r = REPRESENTATION_SURFACE_WITH_EDGES
             then [(uniform_location p (edge_shader r) ''model'', Some (fst (setup_matrices r))),
                   (uniform_location p (edge_shader r) ''view'',
                      Some (fst (snd (setup_matrices r)))),
                   (uniform_location p (edge_shader r) ''projection'',
                      snd (snd (setup_matrices r)))]
             else []))"
proof (intro conjI impI)
  assume "width r \<noteq> 0 \<and> height r \<noteq> 0"
  then show "snd (snd (setup_matrices r)) =
          Some (perspective_matrix (45 * pi / 180)
                  (real_of_int (width r) / real_of_int (height r)) 0.1 10000)"
    using projection_matrix_eq [of r] by simp
next
  assume "vertex_count r \<noteq> 0 \<and> index_count r \<noteq> 0"
  then show "concat (map matrix_upload (emitted g (snd (snd (render p r g))))) =
          (if representation r = REPRESENTATION_SURFACE
              \<or> representation r = REPRESENTATION_SURFACE_WITH_EDGES
           then [(uniform_location p (surface_shader r) ''model'', Some (fst (setup_matrices r))),
                 (uniform_location p (surface_shader r) ''view'',
                    Some (fst (snd (setup_matrices r)))),
                 (uniform_location p (surface_shader r) ''projection'',
                    snd (snd (setup_matrices r)))]
           else [])
          @ (if representation r = REPRESENTATION_WIREFRAME
                \<or> representation r = REPRESENTATION_SURFACE_WITH_EDGES
             then [(uniform_location p (edge_shader r) ''model'', Some (fst (setup_matrices r))),
                   (uniform_location p (edge_shader r) ''view'',
                      Some (fst (snd (setup_matrices r)))),
                   (uniform_location p (edge_shader r) ''projection'',
                      snd (snd (setup_matrices r)))]
             else [])"
    using render_matrix_uploads [of r g p] by simp
qed (rule model_matrix_action view_matrix_action)+

theorem render_matrices_witness:
  "vertex_count triangle_renderer = 3 \<and> index_count triangle_renderer = 3
   \<and> width triangle_renderer = 640 \<and> height triangle_renderer = 480
   \<and> mat4_apply (fst (setup_matrices triangle_renderer)) (point4 (Vec3 1 2 3)) =
       point4 (rotate_about_y 0.3 (rotate_about_x 0.3 (Vec3 1 2 3)))
   \<and> mat4_apply (fst (snd (setup_matrices triangle_renderer))) (point4 (Vec3 1 2 3)) =
       Vec4 1 2 (- 497) 1
   \<and> snd (snd (setup_matrices triangle_renderer)) =
       Some (perspective_matrix (45 * pi / 180) (640 / 480) 0.1 10000)
   \<and> concat (map matrix_upload
        (emitted gl_initial (snd (snd (render example_platform triangle_renderer gl_initial))))) =
       [(0, Some (fst (setup_matrices triangle_renderer))),
        (1, Some (fst (snd (setup_matrices triangle_renderer)))),
        (2, snd (snd (setup_matrices triangle_renderer)))]"
  using render_matrices [of triangle_renderer "Vec3 1 2 3" gl_initial example_platform]
  by (simp add: triangle_renderer_fields translate_by_def vec3_neg_def point4_def
        rotate_about_y_def rotate_about_x_def example_platform_def
        REPRESENTATION_SURFACE_def REPRESENTATION_WIREFRAME_def
        REPRESENTATION_SURFACE_WITH_EDGES_def)

section \<open>Two frames in a row\<close>

lemma render_calls_unfold:
  "render_calls p r =
     GlfwMakeContextCurrent (window r)
     # [BindFramebuffer (fbo r), Viewport 0 0 (width r) (height r),
        ClearColor 0.117 0.117 0.117 1.0, ClearColorDepth]
     @ (if vertex_count r = 0 \<or> index_count r = 0 then [BindFramebuffer 0]
        else (if representation r = REPRESENTATION_SURFACE
                 \<or> representation r = REPRESENTATION_SURFACE_WITH_EDGES
              then [UseProgram (surface_shader r),
                    GetUniformLocation (surface_shader r) ''model'',
                    GetUniformLocation (surface_shader r) ''view'',
                    GetUniformLocation (surface_shader r) ''projection'',
                    UniformMatrix4fv (uniform_location p (surface_shader r) ''model'')
                      (Some (fst (setup_matrices r))),
                    UniformMatrix4fv (uniform_location p (surface_shader r) ''view'')
                      (Some (fst (snd (setup_matrices r)))),
                    UniformMatrix4fv (uniform_location p (surface_shader r) ''projection'')
                      (snd (snd (setup_matrices r))),
                    BindVertexArray (surface_vao r),
                    DrawElementsTriangles (index_count r)]
              else [])
             @ (if representation r = REPRESENTATION_WIREFRAME
                   \<or> representation r = REPRESENTATION_SURFACE_WITH_EDGES
                then [UseProgram (edge_shader r),
                      GetUniformLocation (edge_shader r) ''model'',
                      GetUniformLocation (edge_shader r) ''view'',
                      GetUniformLocation (edge_shader r) ''projection'',
                      GetUniformLocation (edge_shader r) ''edgeColor'',
                      UniformMatrix4fv (uniform_location p (edge_shader r) ''model'')
                        (Some (fst (setup_matrices r))),
                      UniformMatrix4fv (uniform_location p (edge_shader r) ''view'')
                        (Some (fst (snd (setup_matrices r)))),
                      UniformMatrix4fv (uniform_location p (edge_shader r) ''projection'')
                        (snd (snd (setup_matrices r))),
                      (if representation r = REPRESENTATION_WIREFRAME
                       then Uniform4f (uniform_location p (edge_shader r) ''edgeColor'')
                              0.25 0.5 1.0 1.0
                       else Uniform4f (uniform_location p (edge_shader r) ''edgeColor'')
                              0.0 0.0 0.0 0.3),
                      BindVertexArray (edge_vao r),
                      PolygonMode LINE,
                      DrawElementsTriangles (index_count r),
                      PolygonMode FILL]
                else [])
             @ [BindVertexArray 0, BindFramebuffer 0])"
  by (simp add: render_calls_def emitted_def render_def Let_def split_beta gl_initial_def
        render_surface_def render_edges_def gls_proj glcall_proj glfw_make_context_current_proj)


lemma render_ctx_empty:
  "vertex_count r = 0 \<or> index_count r = 0 \<Longrightarrow>
   render_ctx p r c =
     c\<lparr>c_framebuffer := 0, c_viewport := (0, 0, width r, height r),
       c_clear_color := (0.117, 0.117, 0.117, 1.0),
       c_frames := (c_frames c)(fbo r := \<lparr>cleared_to = Some (0.117, 0.117, 0.117, 1.0), draws = []\<rparr>)\<rparr>"
  by (simp add: render_ctx_def render_calls_unfold)




lemma render_ctx_polygon:
  "c_polygon (render_ctx p r c) =
     (if vertex_count r \<noteq> 0 \<and> index_count r \<noteq> 0 \<and> edge_pass r then FILL else c_polygon c)"
  by (simp add: render_ctx_def render_calls_unfold edge_pass_def)


lemma render_ctx_frame:
  "surface_shader r \<noteq> edge_shader r \<Longrightarrow>
   c_frames (render_ctx p r c) (fbo r) =
     \<lparr>cleared_to = Some (0.117, 0.117, 0.117, 1.0),
      draws = (if vertex_count r = 0 \<or> index_count r = 0 then []
               else (if surface_pass r then [surface_snapshot p r c] else [])
                    @ (if edge_pass r then [edge_snapshot p r c] else []))\<rparr>"
  by (simp add: render_ctx_def render_calls_unfold edge_pass_def surface_pass_def
        surface_uniforms_def edge_uniforms_def surface_snapshot_def edge_snapshot_def snapshot_def)

lemma gl_exec_current:
  "\<not> is_glfw c \<Longrightarrow>
   gl_exec s c =
     s\<lparr>sv_contexts := (sv_contexts s)(sv_current s := ctx_exec c (sv_contexts s (sv_current s)))\<rparr>"
  by (cases c) simp_all

lemma exec_calls_current:
  "list_all (\<lambda>c. \<not> is_glfw c) cs \<Longrightarrow>
   foldl gl_exec s cs =
     s\<lparr>sv_contexts := (sv_contexts s)
          (sv_current s := foldl (\<lambda>x call. ctx_exec call x) (sv_contexts s (sv_current s)) cs)\<rparr>"
proof (induction cs arbitrary: s)
  case Nil
  then show ?case by simp
next
  case (Cons c cs)
  then show ?case by (simp add: gl_exec_current cong: if_cong)
qed

lemma render_calls_tl_gl: "list_all (\<lambda>c. \<not> is_glfw c) (tl (render_calls p r))"
  by (simp add: render_calls_unfold)

lemma render_calls_hd: "render_calls p r = GlfwMakeContextCurrent (window r) # tl (render_calls p r)"
  by (simp add: render_calls_unfold)

lemma exec_render_calls:
  "foldl gl_exec s (render_calls p r) =
     \<lparr>sv_current = window r,
      sv_contexts = (sv_contexts s)(window r := render_ctx p r (sv_contexts s (window r)))\<rparr>"
proof -
  have "foldl gl_exec s (render_calls p r)
      = foldl gl_exec (s\<lparr>sv_current := window r\<rparr>) (tl (render_calls p r))"
    by (subst render_calls_hd) simp
  then show ?thesis
    by (simp add: exec_calls_current [OF render_calls_tl_gl] render_ctx_def)
qed

lemma server_after_render:
  "server_after (snd (snd (render p r g))) =
     \<lparr>sv_current = window r,
      sv_contexts = (sv_contexts (server_after g))
         (window r := render_ctx p r (sv_contexts (server_after g) (window r)))\<rparr>"
  by (simp add: server_after_def render_calls_eq exec_render_calls)




text \<open>The polygon mode matters: from a context in line mode the first frame of a
  surface with edges draws its surface as lines and the second as filled triangles.\<close>

lemma render_ctx_frame_needs_fill:
  assumes "surface_shader r \<noteq> edge_shader r" and "c_polygon c = LINE"
    and "vertex_count r \<noteq> 0" and "index_count r \<noteq> 0"
    and "representation r = REPRESENTATION_SURFACE_WITH_EDGES"
  shows "c_frames (render_ctx p r (render_ctx p r c)) (fbo r) \<noteq> c_frames (render_ctx p r c) (fbo r)"
  using assms
  by (simp add: render_ctx_frame surface_pass_def edge_pass_def surface_snapshot_def
        render_ctx_polygon)

lemma ctx_exec_polygon:
  "c_polygon (ctx_exec c x) = (case c of PolygonMode m \<Rightarrow> m | _ \<Rightarrow> c_polygon x)"
  by (induction c x rule: ctx_exec.induct) simp_all

lemma gl_exec_fill:
  assumes "\<forall>win. c_polygon (sv_contexts s win) = FILL" and "c \<noteq> PolygonMode LINE"
  shows "\<forall>win. c_polygon (sv_contexts (gl_exec s c) win) = FILL"
proof (cases "is_glfw c")
  case True
  with assms show ?thesis
    by (cases c) (simp_all add: server_initial_def context_default_def)
next
  case False
  with assms show ?thesis
    by (cases c) (auto simp: gl_exec_current ctx_exec_polygon intro: polygon_mode.exhaust)
qed

lemma exec_calls_fill:
  "\<forall>win. c_polygon (sv_contexts s win) = FILL \<Longrightarrow> PolygonMode LINE \<notin> set cs \<Longrightarrow>
   \<forall>win. c_polygon (sv_contexts (foldl gl_exec s cs) win) = FILL"
proof (induction cs arbitrary: s)
  case Nil
  then show ?case by simp
next
  case (Cons c cs)
  from Cons.prems have "\<forall>win. c_polygon (sv_contexts (gl_exec s c) win) = FILL"
    using gl_exec_fill [of s c] by auto
  from Cons.IH [OF this] Cons.prems(2) show ?case by simp
qed


lemma all_fill_same_calls: "calls g' = calls g \<Longrightarrow> all_fill g' = all_fill g"
  by (simp add: all_fill_def polygon_mode_of_def server_after_def)

lemma all_fill_gls: "all_fill g \<Longrightarrow> PolygonMode LINE \<notin> set cs \<Longrightarrow> all_fill (gls cs g)"
  using exec_calls_fill [of "server_after g" cs]
  by (simp add: all_fill_def polygon_mode_of_def server_after_def gls_proj)

lemma all_fill_glcall: "all_fill g \<Longrightarrow> c \<noteq> PolygonMode LINE \<Longrightarrow> all_fill (glcall c g)"
  using exec_calls_fill [of "server_after g" "[c]"]
  by (simp add: all_fill_def polygon_mode_of_def server_after_def glcall_proj)

lemma all_fill_log_cerr: "all_fill (log_cerr s g) = all_fill g"
  by (rule all_fill_same_calls) (simp add: log_cerr_proj)

lemma all_fill_set_names: "all_fill (set_names ns xs g) = all_fill g"
  by (rule all_fill_same_calls) (simp add: set_names_proj)

lemma all_fill_gl_gen: "all_fill g \<Longrightarrow> all_fill (snd (gl_gen p ns g))"
  by (simp add: gl_gen_def Let_def all_fill_glcall all_fill_set_names)

lemma all_fill_gl_delete: "all_fill g \<Longrightarrow> all_fill (gl_delete ns n g)"
  by (simp add: gl_delete_def all_fill_glcall all_fill_set_names)

lemma all_fill_create_shader: "all_fill g \<Longrightarrow> all_fill (snd (gl_create_shader p st g))"
  by (simp add: gl_create_shader_def Let_def all_fill_glcall all_fill_set_names)

lemma all_fill_create_program: "all_fill g \<Longrightarrow> all_fill (snd (gl_create_program p g))"
  by (simp add: gl_create_program_def Let_def all_fill_glcall all_fill_set_names)

lemma all_fill_glfw:
  "all_fill g \<Longrightarrow> all_fill (snd (glfw_create_window p w h g))"
  "all_fill g \<Longrightarrow> all_fill (glfw_make_context_current win g)"
  "all_fill g \<Longrightarrow> all_fill (glfw_destroy_window win g)"
  "all_fill g \<Longrightarrow> all_fill (glfw_terminate g)"
proof -
  assume a: "all_fill g"
  have w: "all_fill (g\<lparr>windows := ws, names := ns\<rparr>) = all_fill g" for ws ns
    by (rule all_fill_same_calls) simp
  have c: "all_fill (g\<lparr>current := k\<rparr>) = all_fill g" for k
    by (rule all_fill_same_calls) simp
  have d: "all_fill (g\<lparr>windows := ws, current := k, names := ns\<rparr>) = all_fill g" for ws k ns
    by (rule all_fill_same_calls) simp
  have e: "all_fill (x\<lparr>windows := ws, names := ns\<rparr>) = all_fill x" for x ws ns
    by (rule all_fill_same_calls) simp
  show "all_fill (snd (glfw_create_window p w h g))"
    using a by (simp add: glfw_create_window_def Let_def e all_fill_glcall)
  show "all_fill (glfw_make_context_current win g)"
    using a by (simp add: glfw_make_context_current_def c all_fill_glcall)
  show "all_fill (glfw_destroy_window win g)"
    using a by (simp add: glfw_destroy_window_def d all_fill_glcall)
  show "all_fill (glfw_terminate g)"
    using a by (simp add: glfw_terminate_def d all_fill_glcall)
qed

lemma all_fill_create_shader_program:
  "all_fill g \<Longrightarrow> all_fill (snd (create_shader_program p vs fs g))"
  by (simp add: create_shader_program_def Let_def split_beta check_shader_compile_def
        check_program_link_def all_fill_log_cerr all_fill_gls all_fill_gl_delete
        all_fill_create_shader all_fill_create_program)

lemma all_fill_create_framebuffer:
  "all_fill g \<Longrightarrow> all_fill (snd (create_framebuffer p w h r g))"
  by (simp add: create_framebuffer_def Let_def split_beta all_fill_log_cerr all_fill_gls
        all_fill_glcall all_fill_gl_delete all_fill_gl_gen)

lemma all_fill_ctor: "all_fill g \<Longrightarrow> all_fill (snd (FoamRenderer_ctor p raw w h g))"
  by (simp add: FoamRenderer_ctor_def Let_def split_beta all_fill_log_cerr all_fill_gls
        all_fill_glfw all_fill_gl_gen all_fill_create_shader_program
        all_fill_create_framebuffer)

lemma all_fill_dtor: "all_fill g \<Longrightarrow> all_fill (FoamRenderer_dtor r g)"
  by (simp add: FoamRenderer_dtor_def Let_def all_fill_glfw all_fill_gl_delete)

lemma all_fill_upload: "all_fill g \<Longrightarrow> all_fill (upload_mesh_to_gpu r g)"
  by (simp add: upload_mesh_to_gpu_def all_fill_gls)

lemma all_fill_resize: "all_fill g \<Longrightarrow> all_fill (snd (resize p w h r g))"
  by (simp add: resize_def Let_def all_fill_create_framebuffer)

lemma all_fill_render: "all_fill g \<Longrightarrow> all_fill (snd (snd (render p r g)))"
  by (simp add: all_fill_def polygon_mode_of_def server_after_render render_ctx_polygon)

lemma gl_create_shader_proj:
  "fst (gl_create_shader p st g) = gen_name p NS_ShaderProgram (calls g) (names_in_use g NS_ShaderProgram)"
  "current (snd (gl_create_shader p st g)) = current g"
  "calls (snd (gl_create_shader p st g)) = calls g @ [CreateShader st (fst (gl_create_shader p st g))]"
  "names_in_use (snd (gl_create_shader p st g)) ns =
     (if ns = NS_ShaderProgram then fst (gl_create_shader p st g) # names_in_use g ns
      else names_in_use g ns)"
  by (simp_all add: gl_create_shader_def Let_def glcall_proj set_names_proj)

lemma gl_create_program_proj:
  "fst (gl_create_program p g) = gen_name p NS_ShaderProgram (calls g) (names_in_use g NS_ShaderProgram)"
  "current (snd (gl_create_program p g)) = current g"
  "calls (snd (gl_create_program p g)) = calls g @ [CreateProgram (fst (gl_create_program p g))]"
  "names_in_use (snd (gl_create_program p g)) ns =
     (if ns = NS_ShaderProgram then fst (gl_create_program p g) # names_in_use g ns
      else names_in_use g ns)"
  by (simp_all add: gl_create_program_def Let_def glcall_proj set_names_proj)

lemma conforming_fresh: "conforming p \<Longrightarrow> x \<in> set used \<Longrightarrow> gen_name p ns history used \<noteq> x"
  by (auto simp: conforming_def)

lemma check_proj:
  "names_in_use (check_shader_compile p n ty g) ns = names_in_use g ns"
  "calls (check_shader_compile p n ty g) = calls g"
  "names_in_use (check_program_link p n g) ns = names_in_use g ns"
  "calls (check_program_link p n g) = calls g"
  by (simp_all add: check_shader_compile_def check_program_link_def log_cerr_proj)

lemma create_shader_program_names:
  assumes "conforming p"
  shows "fst (create_shader_program p vs fs g) \<notin> set (names_in_use g NS_ShaderProgram)"
    and "fst (create_shader_program p vs fs g)
           \<in> set (names_in_use (snd (create_shader_program p vs fs g)) NS_ShaderProgram)"
proof -
  let ?g1 = "snd (gl_create_shader p VERTEX_SHADER g)"
  let ?v = "fst (gl_create_shader p VERTEX_SHADER g)"
  let ?g2 = "check_shader_compile p ?v ''VERTEX''
               (gls [ShaderSource ?v vs, CompileShader ?v] ?g1)"
  let ?f = "fst (gl_create_shader p FRAGMENT_SHADER ?g2)"
  let ?g3 = "snd (gl_create_shader p FRAGMENT_SHADER ?g2)"
  let ?g4 = "check_shader_compile p ?f ''FRAGMENT''
               (gls [ShaderSource ?f fs, CompileShader ?f] ?g3)"
  let ?P = "fst (gl_create_program p ?g4)"
  have prog: "fst (create_shader_program p vs fs g) = ?P"
    by (simp add: create_shader_program_def Let_def split_beta)
  have used: "names_in_use ?g4 NS_ShaderProgram = ?f # ?v # names_in_use g NS_ShaderProgram"
    by (simp add: check_proj gls_proj gl_create_shader_proj)
  have P: "?P = gen_name p NS_ShaderProgram (calls ?g4) (?f # ?v # names_in_use g NS_ShaderProgram)"
    by (simp only: gl_create_program_proj(1) used)
  from assms P have "?P \<notin> set (?f # ?v # names_in_use g NS_ShaderProgram)"
    by (simp only: conforming_def) blast
  then have ne: "?P \<noteq> ?f" "?P \<noteq> ?v" "?P \<notin> set (names_in_use g NS_ShaderProgram)"
    by auto
  from ne(3) prog show "fst (create_shader_program p vs fs g) \<notin> set (names_in_use g NS_ShaderProgram)"
    by simp
  have "names_in_use (snd (create_shader_program p vs fs g)) NS_ShaderProgram
      = removeAll ?f (removeAll ?v (?P # names_in_use ?g4 NS_ShaderProgram))"
    by (simp add: create_shader_program_def Let_def split_beta gl_delete_proj check_proj gls_proj
          gl_create_program_proj(4))
  with ne prog show "fst (create_shader_program p vs fs g)
           \<in> set (names_in_use (snd (create_shader_program p vs fs g)) NS_ShaderProgram)"
    by simp
qed

lemma ctor_programs_distinct:
  assumes "glfw_init_ok p" and "glfw_window p (windows g) \<noteq> 0" and "glew_init_ok p"
    and "conforming p"
  shows "surface_shader (fst (FoamRenderer_ctor p raw w h g))
           \<noteq> edge_shader (fst (FoamRenderer_ctor p raw w h g))"
proof -
  let ?g0 = "glfw_make_context_current (glfw_window p (windows g))
               (snd (glfw_create_window p w h g))"
  let ?ss = "fst (create_shader_program p vertex_shader_source fragment_shader_source ?g0)"
  let ?g1 = "snd (create_shader_program p vertex_shader_source fragment_shader_source ?g0)"
  let ?es = "fst (create_shader_program p edge_vertex_shader edge_fragment_shader ?g1)"
  have "surface_shader (fst (FoamRenderer_ctor p raw w h g)) = ?ss"
    and "edge_shader (fst (FoamRenderer_ctor p raw w h g)) = ?es"
    using assms(1-3)
    by (simp_all add: FoamRenderer_ctor_def Let_def split_beta create_framebuffer_def
          member_init_def glfw_create_window_def)
  moreover from create_shader_program_names [OF assms(4)]
  have "?ss \<in> set (names_in_use ?g1 NS_ShaderProgram)"
    and "?es \<notin> set (names_in_use ?g1 NS_ShaderProgram)"
    by blast+
  ultimately show ?thesis by auto
qed




text \<open>
  The two conditions of the frame part below hold for every renderer reached from
  \<open>foam_renderer_create\<close>: no entry point leaves a context in line mode, and on a
  platform that hands out names not in use the two programs differ.
\<close>

lemma pipeline_resize: "pipeline (fst (resize p wd ht r g)) = pipeline r"
  by (subst resize_object) (simp add: pipeline_def)

lemma api_step_invariant:
  assumes "api_step p h w c = Inr w'" and "all_fill (glst w)"
  shows "all_fill (glst w')"
    and "map_option pipeline (object_at w' h) = map_option pipeline (object_at w h)"
proof -
  have "all_fill (glst w')
      \<and> map_option pipeline (object_at w' h) = map_option pipeline (object_at w h)"
  proof (cases h)
    case None
    with assms show ?thesis
      by (cases c)
         (auto simp: foam_renderer_update_mesh_def foam_renderer_set_view_def
            foam_renderer_set_mode_def foam_renderer_render_def foam_renderer_resize_def
            foam_renderer_get_texture_def bind_f_def)
  next
    case (Some a)
    show ?thesis
    proof (cases "map_of (heap w) a")
      case None
      with assms Some show ?thesis
        by (cases c)
           (auto simp: foam_renderer_update_mesh_def foam_renderer_set_view_def
              foam_renderer_set_mode_def foam_renderer_render_def foam_renderer_resize_def
              foam_renderer_get_texture_def bind_f_def deref_def)
    next
      case r: (Some r)
      show ?thesis
      proof (cases c)
        case (CallUpdateMesh verts vc inds ic colors c_colors cc)
        with assms Some r show ?thesis
          by (auto simp: foam_renderer_update_mesh_def bind_f_Inr deref_Inr update_mesh_data_Inr
                object_at_def update_conv' pipeline_def all_fill_upload)
      next
        case (CallSetView rx ry z cx cy cz)
        with assms Some r show ?thesis
          by (auto simp: foam_renderer_set_view_def bind_f_def deref_def Let_def object_at_def
                update_conv' pipeline_def)
      next
        case (CallSetMode rep dm)
        with assms Some r show ?thesis
          by (auto simp: foam_renderer_set_mode_def bind_f_def deref_def Let_def object_at_def
                update_conv' pipeline_def)
      next
        case CallRender
        with assms Some r show ?thesis
          by (auto simp: foam_renderer_render_Some bind_f_def object_at_def update_conv'
                all_fill_render)
      next
        case (CallResize wd ht)
        with assms Some r show ?thesis
          by (auto simp: foam_renderer_resize_Some object_at_def update_conv' pipeline_resize
                all_fill_resize)
      next
        case CallGetTexture
        with assms Some r show ?thesis
          by (auto simp: foam_renderer_get_texture_Some bind_f_def)
      qed
    qed
  qed
  then show "all_fill (glst w')"
    and "map_option pipeline (object_at w' h) = map_option pipeline (object_at w h)"
    by simp_all
qed

lemma api_run_invariant:
  "api_run p h w cs = Inr w' \<Longrightarrow> all_fill (glst w) \<Longrightarrow>
   all_fill (glst w')
   \<and> map_option pipeline (object_at w' h) = map_option pipeline (object_at w h)"
proof (induction cs arbitrary: w)
  case Nil
  then show ?case by simp
next
  case (Cons c cs)
  from Cons.prems(1) obtain w1 where s: "api_step p h w c = Inr w1"
    and r: "api_run p h w1 cs = Inr w'"
    by (auto simp: bind_f_Inr)
  from api_step_invariant [OF s Cons.prems(2)] Cons.IH [OF r] show ?case by simp
qed

lemma create_destroy_all_fill:
  "all_fill (glst w) \<Longrightarrow> all_fill (glst (snd (foam_renderer_create p storage w wd ht)))"
  "all_fill (glst w) \<Longrightarrow> foam_renderer_destroy w h = Inr w' \<Longrightarrow> all_fill (glst w')"
  by (auto simp: foam_renderer_create_def Let_def split_beta all_fill_ctor
        foam_renderer_destroy_def bind_f_Inr all_fill_dtor split: option.splits)

lemma frame_hypotheses_reachable:
  assumes "glfw_init_ok p" and "glfw_window p (windows (glst w)) \<noteq> 0" and "glew_init_ok p"
    and "conforming p" and "all_fill (glst w)"
    and "foam_renderer_create p storage w wd ht = (h, w1)"
    and "api_run p h w1 cs = Inr w2"
  shows "\<exists>r. object_at w2 h = Some r \<and> surface_shader r \<noteq> edge_shader r
           \<and> polygon_mode_of (glst w2) (window r) = FILL"
proof -
  from deref_create [OF assms(6)] obtain a where h: "h = Some a"
    and g1: "glst w1 = snd (FoamRenderer_ctor p (storage a) wd ht (glst w))"
    and m: "map_of (heap w1) a = Some (fst (FoamRenderer_ctor p (storage a) wd ht (glst w)))"
    by blast
  let ?r1 = "fst (FoamRenderer_ctor p (storage a) wd ht (glst w))"
  have d: "surface_shader ?r1 \<noteq> edge_shader ?r1"
    by (rule ctor_programs_distinct [OF assms(1-4)])
  have f1: "all_fill (glst w1)"
    unfolding g1 by (rule all_fill_ctor [OF assms(5)])
  from api_run_invariant [OF assms(7) f1]
  have f2: "all_fill (glst w2)"
    and p2: "map_option pipeline (object_at w2 h) = map_option pipeline (object_at w1 h)"
    by simp_all
  from m h have "object_at w1 h = Some ?r1" by (simp add: object_at_def)
  with p2 obtain r where "object_at w2 h = Some r" and "pipeline r = pipeline ?r1"
    by auto
  with d f2 show ?thesis by (auto simp: pipeline_def all_fill_def)
qed




end
